theory Spec2Isabelle
  imports Main "HOL-Library.Word"
begin

section \<open>Numbers of the Go source\<close>

text \<open>
  A \<open>float32\<close> is carried as its 32-bit pattern. No property proved below depends on
  what float32 arithmetic computes, so the arithmetic itself is not interpreted: every
  function that computes with floats takes the operations as a record \<open>F\<close> and the
  theorems hold for every such record.

  Go's \<open>int\<close> has 64 bits on the platforms the toolkit is built for. The segment
  counts, directions and loop counters of the plane code are \<open>int64\<close>, 64-bit words
  read as signed numbers, and their arithmetic wraps around as Go's does. The length of
  an array is a number that is never negative (\<open>len\<close>), and \<open>len(a) / k\<close>, which
  cannot overflow, truncates exactly as \<open>div\<close> does. The pixel coordinates of
  \<open>image.Point\<close> are kept as integers: no property below depends on their sums.
\<close>

type_synonym float32 = "32 word"
type_synonym uint32 = "32 word"
type_synonym int64 = "64 word"

record float32_ops =
  f32_of_int :: "int \<Rightarrow> float32"
  f32_add :: "float32 \<Rightarrow> float32 \<Rightarrow> float32"
  f32_sub :: "float32 \<Rightarrow> float32 \<Rightarrow> float32"
  f32_mul :: "float32 \<Rightarrow> float32 \<Rightarrow> float32"
  f32_div :: "float32 \<Rightarrow> float32 \<Rightarrow> float32"
  f32_gt_zero :: "float32 \<Rightarrow> bool"
  f32_to_int :: "float32 \<Rightarrow> int"

definition len :: "'a list \<Rightarrow> int" where
  "len xs = int (length xs)"

section \<open>The mesh (package gi3d, \<open>MeshBase\<close>)\<close>

text \<open>
  Modelled from the spec: the GPU backend (package \<open>gpu\<close>) is not in the sources. The
  spec gives it a buffer manager with a vectors and an indexes sub-buffer, created with
  a usage hint, whose vector layout and contents are set by \<open>MakeVectors\<close>. Each buffer
  records what was handed to it.
\<close>

datatype Usage = StaticDraw | DynamicDraw

datatype InVecs = InVtxPos | InVtxNorm | InVtxTexUV | InVtxColor

record VectorsBuffer =
  vb_usage :: Usage
  vb_vectors :: "(InVecs \<times> bool) list"
  vb_len :: int
  vb_data :: "(InVecs \<times> float32 list) list"

record IndexesBuffer =
  ib_usage :: Usage
  ib_len :: int
  ib_data :: "uint32 list"

record BufferMgr =
  bm_vectors :: VectorsBuffer
  bm_indexes :: IndexesBuffer
  bm_active :: bool

record 'b MeshBase =
  Nm :: string
  Dynamic :: bool
  Trans :: bool
  Vtx :: "float32 list"
  Norm :: "float32 list"
  TexUV :: "float32 list"
  Idx :: "uint32 list"
  Color :: "float32 list"
  BBox :: 'b
  Buff :: "BufferMgr option"

definition HasColor :: "'b MeshBase \<Rightarrow> bool" where
  "HasColor ms = (len (Color ms) > 0)"

definition IsTransparent :: "'b MeshBase \<Rightarrow> bool" where
  "IsTransparent ms = (if \<not> HasColor ms then False else Trans ms)"

definition Reset :: "'b MeshBase \<Rightarrow> 'b MeshBase" where
  "Reset ms = ms\<lparr>Vtx := [], Norm := [], TexUV := [], Idx := [], Color := []\<rparr>"

text \<open>
  \<open>Validate\<close> returns \<open>nil\<close> (\<open>None\<close>) or an error built by \<open>fmt.Errorf\<close>; the error
  keeps the two counts its message prints. Every error is handed to \<open>log.Println\<close> just
  before it is returned, which \<open>Validate_log\<close> records.
\<close>

datatype MeshError =
  NoVerticies
  | NormsMismatch int int
  | TexUVMismatch int int
  | ColorsMismatch int int

definition Validate :: "'b MeshBase \<Rightarrow> MeshError option" where
  "Validate ms =
    (let vln = len (Vtx ms) div 3 in
     if vln = 0 then Some NoVerticies
     else
       let nln = len (Norm ms) div 3 in
       if nln \<noteq> vln then Some (NormsMismatch nln vln)
       else
         let tln = len (TexUV ms) div 2 in
         if tln \<noteq> vln then Some (TexUVMismatch tln vln)
         else
           let cln = len (Color ms) div 4 in
           if cln = 0 then None
           else if cln \<noteq> vln then Some (ColorsMismatch cln vln)
           else None)"

definition Validate_log :: "'b MeshBase \<Rightarrow> MeshError list" where
  "Validate_log ms = (case Validate ms of None \<Rightarrow> [] | Some e \<Rightarrow> [e])"

subsection \<open>Building and activating the GPU buffers\<close>

text \<open>
  A Go panic is a value of \<open>panic\<close>; a function that can panic returns \<open>panic + result\<close>.
  Calling a method on a \<open>nil\<close> interface value, or reading a field through a \<open>nil\<close>
  pointer, is \<open>NilDereference\<close>.
\<close>

datatype panic = NilDereference | ReflectZeroValue | ReflectConvert | ReflectFieldIndex

definition NewVectorsBuffer :: "Usage \<Rightarrow> VectorsBuffer" where
  "NewVectorsBuffer usg = \<lparr>vb_usage = usg, vb_vectors = [], vb_len = 0, vb_data = []\<rparr>"

definition NewIndexesBuffer :: "Usage \<Rightarrow> IndexesBuffer" where
  "NewIndexesBuffer usg = \<lparr>ib_usage = usg, ib_len = 0, ib_data = []\<rparr>"

definition NumVectors :: "VectorsBuffer \<Rightarrow> int" where
  "NumVectors vb = len (vb_vectors vb)"

definition DeleteAllVectors :: "VectorsBuffer \<Rightarrow> VectorsBuffer" where
  "DeleteAllVectors vb = vb\<lparr>vb_vectors := [], vb_data := []\<rparr>"

definition AddVectors :: "InVecs \<Rightarrow> bool \<Rightarrow> VectorsBuffer \<Rightarrow> VectorsBuffer" where
  "AddVectors v interleave vb = vb\<lparr>vb_vectors := vb_vectors vb @ [(v, interleave)]\<rparr>"

definition SetVecData :: "InVecs \<Rightarrow> float32 list \<Rightarrow> VectorsBuffer \<Rightarrow> VectorsBuffer" where
  "SetVecData v d vb = vb\<lparr>vb_data := (v, d) # filter (\<lambda>e. fst e \<noteq> v) (vb_data vb)\<rparr>"

text \<open>
  \<open>MakeVectors\<close> returns the error of \<open>Validate\<close> before it touches \<open>Buff\<close>; otherwise
  it creates the buffer manager when there is none, lays out the vectors when their
  number changed, and hands over the arrays.
\<close>

definition MakeVectors :: "'b MeshBase \<Rightarrow> MeshError option \<times> 'b MeshBase" where
  "MakeVectors ms =
    (case Validate ms of
       Some err \<Rightarrow> (Some err, ms)
     | None \<Rightarrow>
        let bm = (case Buff ms of
                    None \<Rightarrow>
                      \<lparr>bm_vectors =
                          NewVectorsBuffer (if Dynamic ms then DynamicDraw else StaticDraw),
                        bm_indexes = NewIndexesBuffer StaticDraw, bm_active = False\<rparr>
                  | Some b \<Rightarrow> b);
            vbuf = bm_vectors bm;
            ibuf = bm_indexes bm;
            hasColor = HasColor ms;
            nvec = (if hasColor then 3 + 1 else 3);
            vbuf = (if NumVectors vbuf \<noteq> nvec
                    then let vbuf = DeleteAllVectors vbuf;
                             vbuf = AddVectors InVtxPos True vbuf;
                             vbuf = AddVectors InVtxNorm True vbuf;
                             vbuf = AddVectors InVtxTexUV True vbuf
                         in if hasColor then AddVectors InVtxColor False vbuf else vbuf
                    else vbuf);
            vln = len (Vtx ms) div 3;
            vbuf = vbuf\<lparr>vb_len := vln\<rparr>;
            vbuf = SetVecData InVtxPos (Vtx ms) vbuf;
            vbuf = SetVecData InVtxNorm (Norm ms) vbuf;
            vbuf = SetVecData InVtxTexUV (TexUV ms) vbuf;
            vbuf = (if hasColor then SetVecData InVtxColor (Color ms) vbuf else vbuf);
            iln = len (Idx ms);
            ibuf = ibuf\<lparr>ib_len := iln, ib_data := Idx ms\<rparr>
        in (None, ms\<lparr>Buff := Some (bm\<lparr>bm_vectors := vbuf, bm_indexes := ibuf\<rparr>)\<rparr>))"

text \<open>
  \<open>Activate\<close> calls \<open>MakeVectors\<close> when \<open>Buff\<close> is \<open>nil\<close>, drops the error it
  returns, and then calls \<open>ms.Buff.Activate()\<close>.
\<close>

definition Activate :: "'b MeshBase \<Rightarrow> panic + 'b MeshBase" where
  "Activate ms =
    (let ms = (if Buff ms = None then snd (MakeVectors ms) else ms)
     in case Buff ms of
          None \<Rightarrow> Inl NilDereference
        | Some b \<Rightarrow> Inr (ms\<lparr>Buff := Some (b\<lparr>bm_active := True\<rparr>)\<rparr>))"

text \<open>\<open>Render3D\<close> draws \<open>ibuf.Len()\<close> indexes; the draw call is its result.\<close>

definition Render3D :: "'b MeshBase \<Rightarrow> panic + int" where
  "Render3D ms =
    (case Buff ms of
       None \<Rightarrow> Inl NilDereference
     | Some b \<Rightarrow> Inr (ib_len (bm_indexes b)))"

subsection \<open>The plane primitive\<close>

text \<open>
  Modelled from the spec: package \<open>mat32\<close> is not in the sources. The spec's plane
  builder emits, per grid point, a vertex and a normal (three floats each) and a texcoord
  (two floats), for a width and a height axis chosen among the three axes that
  \<open>AddPlane\<close> names (\<open>mat32.X\<close>, \<open>mat32.Y\<close>, \<open>mat32.Z\<close>): \<open>Vec3.SetDim\<close> stores
  one component, \<open>AppendVec3\<close>, \<open>Append\<close> and \<open>AppendVec4\<close> append three, the given
  and four floats to an array. The color type of package \<open>gi\<close> and its \<open>IsNil\<close> and
  \<open>ColorToVec4f\<close> are parameters (the type \<open>'c\<close> and the record \<open>C\<close>).
\<close>

datatype Dims = X | Y | Z

datatype Vec3 = Vec3 float32 float32 float32

datatype Vec4 = Vec4 float32 float32 float32 float32

fun SetDim :: "Dims \<Rightarrow> float32 \<Rightarrow> Vec3 \<Rightarrow> Vec3" where
  "SetDim X v (Vec3 x y z) = Vec3 v y z"
| "SetDim Y v (Vec3 x y z) = Vec3 x v z"
| "SetDim Z v (Vec3 x y z) = Vec3 x y v"

fun AppendVec3 :: "float32 list \<Rightarrow> Vec3 \<Rightarrow> float32 list" where
  "AppendVec3 a (Vec3 x y z) = a @ [x, y, z]"

fun AppendVec4 :: "float32 list \<Rightarrow> Vec4 \<Rightarrow> float32 list" where
  "AppendVec4 a (Vec4 x y z w) = a @ [x, y, z, w]"

record 'c color_ops =
  IsNil :: "'c \<Rightarrow> bool"
  ColorToVec4f :: "'c \<Rightarrow> Vec4"

text \<open>
  The segment counts, the directions and every value computed from them are \<open>int64\<close>:
  \<open>+\<close> and \<open>*\<close> wrap around, and the comparisons of the source are comparisons of
  the signed values (\<open>sint\<close>). \<open>float32(i)\<close> converts the signed value and
  \<open>uint32(i)\<close> keeps the low 32 bits (\<open>ucast\<close>).

  Modelled from the spec: \<open>ints.MaxInt\<close> is not in the sources. It is the \<open>max\<close> of
  the spec's plane grid sizing, the larger of its two arguments.
\<close>

definition MaxInt :: "int64 \<Rightarrow> int64 \<Rightarrow> int64" where
  "MaxInt a b = (if sint a > sint b then a else b)"

definition PlaneSize :: "int64 \<Rightarrow> int64 \<Rightarrow> int64" where
  "PlaneSize wsegs hsegs =
    (let wsegs = MaxInt wsegs 1;
         hsegs = MaxInt hsegs 1
     in (wsegs + 1) * (hsegs + 1))"

text \<open>The values \<open>AddPlane\<close> fixes before its loops.\<close>

record 'c plane_locals =
  p_waxis :: Dims
  p_haxis :: Dims
  p_w :: Dims
  p_wsegs :: int64
  p_hsegs :: int64
  p_wsegs1 :: int64
  p_hsegs1 :: int64
  p_segWidth :: float32
  p_segHeight :: float32
  p_fwdir :: float32
  p_fhdir :: float32
  p_woff :: float32
  p_hoff :: float32
  p_zoff :: float32
  p_norm :: Vec3
  p_clr :: 'c
  p_idxSt :: int64

definition plane_axis :: "Dims \<Rightarrow> Dims \<Rightarrow> Dims" where
  "plane_axis waxis haxis =
    (if (waxis = X \<and> haxis = Y) \<or> (waxis = Y \<and> haxis = X) then Z
     else if (waxis = X \<and> haxis = Z) \<or> (waxis = Z \<and> haxis = X) then Y
     else if (waxis = Z \<and> haxis = Y) \<or> (waxis = Y \<and> haxis = Z) then X
     else Z)"

text \<open>The body of the vertex loops at \<open>(ix, iy)\<close>.\<close>

definition plane_vertex ::
  "float32_ops \<Rightarrow> 'c color_ops \<Rightarrow> 'c plane_locals \<Rightarrow> int64 \<Rightarrow> int64 \<Rightarrow> 'b MeshBase \<Rightarrow>
   'b MeshBase"
where
  "plane_vertex F C p iy ix ms =
    (let vtx = Vec3 0 0 0;
         vtx = SetDim (p_waxis p)
                 (f32_add F
                    (f32_mul F (f32_mul F (f32_of_int F (sint ix)) (p_segWidth p)) (p_fwdir p))
                    (p_woff p)) vtx;
         vtx = SetDim (p_haxis p)
                 (f32_add F
                    (f32_mul F (f32_mul F (f32_of_int F (sint iy)) (p_segHeight p)) (p_fhdir p))
                    (p_hoff p)) vtx;
         vtx = SetDim (p_w p) (p_zoff p) vtx;
         ms = ms\<lparr>Vtx := AppendVec3 (Vtx ms) vtx\<rparr>;
         ms = ms\<lparr>Norm := AppendVec3 (Norm ms) (p_norm p)\<rparr>;
         ms = ms\<lparr>TexUV := TexUV ms @
                [f32_div F (f32_of_int F (sint ix)) (f32_of_int F (sint (p_wsegs p))),
                 f32_sub F (f32_of_int F 1)
                   (f32_div F (f32_of_int F (sint iy)) (f32_of_int F (sint (p_hsegs p))))]\<rparr>
     in if \<not> IsNil C (p_clr p)
        then ms\<lparr>Color := AppendVec4 (Color ms) (ColorToVec4f C (p_clr p))\<rparr>
        else ms)"

text \<open>
  The four loops. A counter below its bound is below the largest \<open>int64\<close>, so its
  increment does not wrap and every loop ends.
\<close>

function AddPlane_vtx_ix ::
  "float32_ops \<Rightarrow> 'c color_ops \<Rightarrow> 'c plane_locals \<Rightarrow> int64 \<Rightarrow> int64 \<Rightarrow> 'b MeshBase \<Rightarrow>
   'b MeshBase"
where
  "AddPlane_vtx_ix F C p iy ix ms =
    (if sint ix < sint (p_wsegs1 p)
     then AddPlane_vtx_ix F C p iy (ix + 1) (plane_vertex F C p iy ix ms)
     else ms)"
  by pat_completeness auto
termination
proof (relation "measure (\<lambda>(F, C, p, iy, ix, ms). nat (sint (p_wsegs1 p) - sint ix))")
  fix F :: float32_ops and C :: "'c color_ops" and p :: "'c plane_locals"
    and iy ix :: int64 and ms :: "'b MeshBase"
  assume below: "sint ix < sint (p_wsegs1 p)"
  have "sint (p_wsegs1 p) < 2 ^ 63" and "- (2 ^ 63) \<le> sint ix"
    using sint_lt [of "p_wsegs1 p"] sint_ge [of ix] by simp_all
  then have "sint (ix + 1) = sint ix + 1"
    using below by (simp add: sint_word_ariths signed_take_bit_int_eq_self)
  then show "((F, C, p, iy, ix + 1, plane_vertex F C p iy ix ms), (F, C, p, iy, ix, ms))
      \<in> measure (\<lambda>(F, C, p, iy, ix, ms). nat (sint (p_wsegs1 p) - sint ix))"
    using below by simp
qed simp

function AddPlane_vtx_iy ::
  "float32_ops \<Rightarrow> 'c color_ops \<Rightarrow> 'c plane_locals \<Rightarrow> int64 \<Rightarrow> 'b MeshBase \<Rightarrow> 'b MeshBase"
where
  "AddPlane_vtx_iy F C p iy ms =
    (if sint iy < sint (p_hsegs1 p)
     then AddPlane_vtx_iy F C p (iy + 1) (AddPlane_vtx_ix F C p iy 0 ms)
     else ms)"
  by pat_completeness auto
termination
proof (relation "measure (\<lambda>(F, C, p, iy, ms). nat (sint (p_hsegs1 p) - sint iy))")
  fix F :: float32_ops and C :: "'c color_ops" and p :: "'c plane_locals"
    and iy :: int64 and ms :: "'b MeshBase"
  assume below: "sint iy < sint (p_hsegs1 p)"
  have "sint (p_hsegs1 p) < 2 ^ 63" and "- (2 ^ 63) \<le> sint iy"
    using sint_lt [of "p_hsegs1 p"] sint_ge [of iy] by simp_all
  then have "sint (iy + 1) = sint iy + 1"
    using below by (simp add: sint_word_ariths signed_take_bit_int_eq_self)
  then show "((F, C, p, iy + 1, AddPlane_vtx_ix F C p iy 0 ms), (F, C, p, iy, ms))
      \<in> measure (\<lambda>(F, C, p, iy, ms). nat (sint (p_hsegs1 p) - sint iy))"
    using below by simp
qed simp

text \<open>The body of the index loops: two triangles \<open>a b d\<close> and \<open>b c d\<close> per grid cell.\<close>

definition plane_cell :: "'c plane_locals \<Rightarrow> int64 \<Rightarrow> int64 \<Rightarrow> 'b MeshBase \<Rightarrow> 'b MeshBase" where
  "plane_cell p iy ix ms =
    (let a = ix + p_wsegs1 p * iy;
         b = ix + p_wsegs1 p * (iy + 1);
         c = (ix + 1) + p_wsegs1 p * (iy + 1);
         d = (ix + 1) + p_wsegs1 p * iy;
         idxSt = p_idxSt p
     in ms\<lparr>Idx := Idx ms @
          [ucast (a + idxSt), ucast (b + idxSt), ucast (d + idxSt),
           ucast (b + idxSt), ucast (c + idxSt), ucast (d + idxSt)]\<rparr>)"

function AddPlane_idx_ix :: "'c plane_locals \<Rightarrow> int64 \<Rightarrow> int64 \<Rightarrow> 'b MeshBase \<Rightarrow> 'b MeshBase" where
  "AddPlane_idx_ix p iy ix ms =
    (if sint ix < sint (p_wsegs p)
     then AddPlane_idx_ix p iy (ix + 1) (plane_cell p iy ix ms)
     else ms)"
  by pat_completeness auto
termination
proof (relation "measure (\<lambda>(p, iy, ix, ms). nat (sint (p_wsegs p) - sint ix))")
  fix p :: "'c plane_locals" and iy ix :: int64 and ms :: "'b MeshBase"
  assume below: "sint ix < sint (p_wsegs p)"
  have "sint (p_wsegs p) < 2 ^ 63" and "- (2 ^ 63) \<le> sint ix"
    using sint_lt [of "p_wsegs p"] sint_ge [of ix] by simp_all
  then have "sint (ix + 1) = sint ix + 1"
    using below by (simp add: sint_word_ariths signed_take_bit_int_eq_self)
  then show "((p, iy, ix + 1, plane_cell p iy ix ms), (p, iy, ix, ms))
      \<in> measure (\<lambda>(p, iy, ix, ms). nat (sint (p_wsegs p) - sint ix))"
    using below by simp
qed simp

function AddPlane_idx_iy :: "'c plane_locals \<Rightarrow> int64 \<Rightarrow> 'b MeshBase \<Rightarrow> 'b MeshBase" where
  "AddPlane_idx_iy p iy ms =
    (if sint iy < sint (p_hsegs p)
     then AddPlane_idx_iy p (iy + 1) (AddPlane_idx_ix p iy 0 ms)
     else ms)"
  by pat_completeness auto
termination
proof (relation "measure (\<lambda>(p, iy, ms). nat (sint (p_hsegs p) - sint iy))")
  fix p :: "'c plane_locals" and iy :: int64 and ms :: "'b MeshBase"
  assume below: "sint iy < sint (p_hsegs p)"
  have "sint (p_hsegs p) < 2 ^ 63" and "- (2 ^ 63) \<le> sint iy"
    using sint_lt [of "p_hsegs p"] sint_ge [of iy] by simp_all
  then have "sint (iy + 1) = sint iy + 1"
    using below by (simp add: sint_word_ariths signed_take_bit_int_eq_self)
  then show "((p, iy + 1, AddPlane_idx_ix p iy 0 ms), (p, iy, ms))
      \<in> measure (\<lambda>(p, iy, ms). nat (sint (p_hsegs p) - sint iy))"
    using below by simp
qed simp

text \<open>
  \<open>idxSt\<close> is \<open>ms.Vtx.Len() / 3\<close>: the length of an array is not negative, so the
  division truncates as \<open>div\<close> does.
\<close>

definition AddPlane_locals ::
  "float32_ops \<Rightarrow> Dims \<Rightarrow> Dims \<Rightarrow> int64 \<Rightarrow> int64 \<Rightarrow> float32 \<Rightarrow> float32 \<Rightarrow> float32 \<Rightarrow>
   float32 \<Rightarrow> float32 \<Rightarrow> int64 \<Rightarrow> int64 \<Rightarrow> 'c \<Rightarrow> 'b MeshBase \<Rightarrow> 'c plane_locals"
where
  "AddPlane_locals F waxis haxis wdir hdir width height woff hoff zoff wsegs hsegs clr ms =
    (let idxSt = word_of_int (len (Vtx ms) div 3);
         w = plane_axis waxis haxis;
         wsegs = MaxInt wsegs 1;
         hsegs = MaxInt hsegs 1;
         norm = (if f32_gt_zero F zoff then SetDim w (f32_of_int F 1) (Vec3 0 0 0)
                 else SetDim w (f32_of_int F (- 1)) (Vec3 0 0 0))
     in \<lparr>p_waxis = waxis, p_haxis = haxis, p_w = w,
         p_wsegs = wsegs, p_hsegs = hsegs, p_wsegs1 = wsegs + 1, p_hsegs1 = hsegs + 1,
         p_segWidth = f32_div F width (f32_of_int F (sint wsegs)),
         p_segHeight = f32_div F height (f32_of_int F (sint hsegs)),
         p_fwdir = f32_of_int F (sint wdir), p_fhdir = f32_of_int F (sint hdir),
         p_woff = (if sint wdir < 0 then f32_add F width woff else woff),
         p_hoff = (if sint hdir < 0 then f32_add F height hoff else hoff),
         p_zoff = zoff, p_norm = norm, p_clr = clr, p_idxSt = idxSt\<rparr>)"

definition AddPlane ::
  "float32_ops \<Rightarrow> 'c color_ops \<Rightarrow> Dims \<Rightarrow> Dims \<Rightarrow> int64 \<Rightarrow> int64 \<Rightarrow> float32 \<Rightarrow> float32 \<Rightarrow>
   float32 \<Rightarrow> float32 \<Rightarrow> float32 \<Rightarrow> int64 \<Rightarrow> int64 \<Rightarrow> 'c \<Rightarrow> 'b MeshBase \<Rightarrow> 'b MeshBase"
where
  "AddPlane F C waxis haxis wdir hdir width height woff hoff zoff wsegs hsegs clr ms =
    (let p = AddPlane_locals F waxis haxis wdir hdir width height woff hoff zoff wsegs hsegs clr ms
     in AddPlane_idx_iy p 0 (AddPlane_vtx_iy F C p 0 ms))"

section \<open>The widget (package gi, \<open>WidgetBase\<close> and \<open>PartsWidgetBase\<close>)\<close>

subsection \<open>Geometry\<close>

text \<open>
  \<open>image.Point\<close> and \<open>image.Rectangle\<close> are types of Go's standard library, with
  their methods \<open>Empty\<close>, \<open>Add\<close> and \<open>Intersect\<close> as the library defines them.
\<close>

record Point =
  Pt_X :: int
  Pt_Y :: int

record Rectangle =
  Rect_Min :: Point
  Rect_Max :: Point

definition ZP :: Point where
  "ZP = \<lparr>Pt_X = 0, Pt_Y = 0\<rparr>"

definition ZR :: Rectangle where
  "ZR = \<lparr>Rect_Min = ZP, Rect_Max = ZP\<rparr>"

definition Empty :: "Rectangle \<Rightarrow> bool" where
  "Empty r = (Pt_X (Rect_Min r) \<ge> Pt_X (Rect_Max r) \<or> Pt_Y (Rect_Min r) \<ge> Pt_Y (Rect_Max r))"

definition Rect_Add :: "Rectangle \<Rightarrow> Point \<Rightarrow> Rectangle" where
  "Rect_Add r p =
    \<lparr>Rect_Min = \<lparr>Pt_X = Pt_X (Rect_Min r) + Pt_X p, Pt_Y = Pt_Y (Rect_Min r) + Pt_Y p\<rparr>,
     Rect_Max = \<lparr>Pt_X = Pt_X (Rect_Max r) + Pt_X p, Pt_Y = Pt_Y (Rect_Max r) + Pt_Y p\<rparr>\<rparr>"

definition Intersect :: "Rectangle \<Rightarrow> Rectangle \<Rightarrow> Rectangle" where
  "Intersect r s =
    (let r = (if Pt_X (Rect_Min r) < Pt_X (Rect_Min s)
              then r\<lparr>Rect_Min := (Rect_Min r)\<lparr>Pt_X := Pt_X (Rect_Min s)\<rparr>\<rparr> else r);
         r = (if Pt_Y (Rect_Min r) < Pt_Y (Rect_Min s)
              then r\<lparr>Rect_Min := (Rect_Min r)\<lparr>Pt_Y := Pt_Y (Rect_Min s)\<rparr>\<rparr> else r);
         r = (if Pt_X (Rect_Max r) > Pt_X (Rect_Max s)
              then r\<lparr>Rect_Max := (Rect_Max r)\<lparr>Pt_X := Pt_X (Rect_Max s)\<rparr>\<rparr> else r);
         r = (if Pt_Y (Rect_Max r) > Pt_Y (Rect_Max s)
              then r\<lparr>Rect_Max := (Rect_Max r)\<lparr>Pt_Y := Pt_Y (Rect_Max s)\<rparr>\<rparr> else r)
     in if Empty r then ZR else r)"

text \<open>
  Modelled from the spec: \<open>Vec2D\<close> is not in the sources. The spec's positions and
  sizes are pairs of pixel coordinates and its move pass sets the position to the
  original position plus the delta: \<open>Add\<close> adds by component and
  \<open>NewVec2DFmPoint\<close> converts both coordinates of a point to floats.
\<close>

record Vec2D =
  V_X :: float32
  V_Y :: float32

definition Vec2D_Add :: "float32_ops \<Rightarrow> Vec2D \<Rightarrow> Vec2D \<Rightarrow> Vec2D" where
  "Vec2D_Add F a b = \<lparr>V_X = f32_add F (V_X a) (V_X b), V_Y = f32_add F (V_Y a) (V_Y b)\<rparr>"

definition NewVec2DFmPoint :: "float32_ops \<Rightarrow> Point \<Rightarrow> Vec2D" where
  "NewVec2DFmPoint F pt = \<lparr>V_X = f32_of_int F (Pt_X pt), V_Y = f32_of_int F (Pt_Y pt)\<rparr>"

subsection \<open>The node\<close>

text \<open>
  The fields of a node that the functions of the sources read or write. \<open>Flag\<close> is the
  node's bit set; \<open>Viewport\<close> is the pointer to the viewport, \<open>None\<close> when it is \<open>nil\<close>,
  of which the render state's bounds stack and the bounds of the pixels are kept;
  \<open>Sty_BoxSpace\<close> is what \<open>g.Sty.BoxSpace()\<close> returns; \<open>EventBindings\<close> are the event
  connections made for this node with \<open>ConnectEventType\<close>.
\<close>

datatype NodeFlags = FullReRender | Overlay | Inactive | Selected

datatype EventType = MouseEvent | MouseHoverEvent

datatype EventPris = HiPri | RegPri | LowPri

record Viewport2D =
  Render_BoundsStack :: "Rectangle list"
  Pixels_Bounds :: Rectangle

record LayoutData =
  Size_Pref :: Vec2D
  AllocSize :: Vec2D
  AllocPos :: Vec2D
  AllocPosRel :: Vec2D
  AllocPosOrig :: Vec2D

record WidgetFields =
  Flag :: "NodeFlags set"
  Viewport :: "Viewport2D option"
  BBox2D :: Rectangle
  ObjBBox :: Rectangle
  VpBBox :: Rectangle
  WinBBox :: Rectangle
  LayData :: LayoutData
  Sty_BoxSpace :: float32
  EventBindings :: "(EventType \<times> EventPris) list"

text \<open>
  A node is a \<open>WidgetBase\<close> with its children, or a \<open>PartsWidgetBase\<close>, which also owns
  the sub-tree \<open>Parts\<close>.
\<close>

datatype Node =
  WidgetBase WidgetFields "Node list"
  | PartsWidgetBase WidgetFields Node "Node list"

text \<open>
  \<open>AsWidget\<close> gives the \<open>WidgetBase\<close> fields of a node of either kind, \<open>Kids\<close> its
  children.
\<close>

fun AsWidget :: "Node \<Rightarrow> WidgetFields" where
  "AsWidget (WidgetBase w kids) = w"
| "AsWidget (PartsWidgetBase w parts kids) = w"

fun Kids :: "Node \<Rightarrow> Node list" where
  "Kids (WidgetBase w kids) = kids"
| "Kids (PartsWidgetBase w parts kids) = kids"

fun upd_fields :: "(WidgetFields \<Rightarrow> WidgetFields) \<Rightarrow> Node \<Rightarrow> Node" where
  "upd_fields f (WidgetBase w kids) = WidgetBase (f w) kids"
| "upd_fields f (PartsWidgetBase w parts kids) = PartsWidgetBase (f w) parts kids"

text \<open>
  Modelled from the spec: the flag methods of the embedded node type are not in the
  sources. The spec gives every node a needs-full-rerender flag, which the render entry
  point tests and clears, and an overlay kind of node.
\<close>

definition NeedsFullReRender :: "Node \<Rightarrow> bool" where
  "NeedsFullReRender g = (FullReRender \<in> Flag (AsWidget g))"

definition IsOverlay :: "Node \<Rightarrow> bool" where
  "IsOverlay g = (Overlay \<in> Flag (AsWidget g))"

definition ClearFullReRender :: "Node \<Rightarrow> Node" where
  "ClearFullReRender g = upd_fields (\<lambda>w. w\<lparr>Flag := Flag w - {FullReRender}\<rparr>) g"

subsection \<open>Moving a node\<close>

text \<open>
  Modelled from the spec: \<open>ComputeBBox2DBase\<close> is not in the sources. The spec's move
  pass recomputes the bounding boxes from the new position without resizing: the node's
  own box shifted by the delta, and its intersection with the parent's box for the
  viewport box. It reads and writes bounding boxes only.
\<close>

definition ComputeBBox2DBase :: "Rectangle \<Rightarrow> Point \<Rightarrow> WidgetFields \<Rightarrow> WidgetFields" where
  "ComputeBBox2DBase parBBox delta w =
    (let obj = Rect_Add (BBox2D w) delta
     in w\<lparr>ObjBBox := obj, VpBBox := Intersect parBBox obj\<rparr>)"

text \<open>
  \<open>ComputeBBox2D\<close> is called through the node's interface: \<open>WidgetBase\<close> computes its
  own boxes, \<open>PartsWidgetBase\<close> (\<open>ComputeBBox2DParts\<close>) also those of its parts.
\<close>

fun ComputeBBox2D :: "Rectangle \<Rightarrow> Point \<Rightarrow> Node \<Rightarrow> Node" where
  "ComputeBBox2D parBBox delta (WidgetBase w kids) =
     WidgetBase (ComputeBBox2DBase parBBox delta w) kids"
| "ComputeBBox2D parBBox delta (PartsWidgetBase w parts kids) =
     PartsWidgetBase (ComputeBBox2DBase parBBox delta w) (ComputeBBox2D parBBox delta parts) kids"

definition Move2DBase :: "float32_ops \<Rightarrow> Point \<Rightarrow> Rectangle \<Rightarrow> Node \<Rightarrow> Node" where
  "Move2DBase F delta parBBox g =
    (let g = upd_fields
               (\<lambda>w. w\<lparr>LayData := (LayData w)\<lparr>AllocPos :=
                  Vec2D_Add F (AllocPosOrig (LayData w)) (NewVec2DFmPoint F delta)\<rparr>\<rparr>) g
     in ComputeBBox2D parBBox delta g)"

definition ChildrenBBox2DWidget :: "float32_ops \<Rightarrow> WidgetFields \<Rightarrow> Rectangle" where
  "ChildrenBBox2DWidget F w =
    (let nb = VpBBox w;
         spc = f32_to_int F (Sty_BoxSpace w)
     in \<lparr>Rect_Min = \<lparr>Pt_X = Pt_X (Rect_Min nb) + spc, Pt_Y = Pt_Y (Rect_Min nb) + spc\<rparr>,
         Rect_Max = \<lparr>Pt_X = Pt_X (Rect_Max nb) - spc, Pt_Y = Pt_Y (Rect_Max nb) - spc\<rparr>\<rparr>)"

definition ChildrenBBox2D :: "float32_ops \<Rightarrow> Node \<Rightarrow> Rectangle" where
  "ChildrenBBox2D F g = ChildrenBBox2DWidget F (AsWidget g)"

text \<open>
  \<open>Move2D\<close> of \<open>WidgetBase\<close> and of \<open>PartsWidgetBase\<close>, chosen by the kind of the node
  as the interface call does.

  Modelled from the spec: \<open>Move2DChildren\<close> is not in the sources. The spec's move pass
  propagates the same delta to the children: every child gets \<open>Move2D\<close> with the delta
  and this node's \<open>ChildrenBBox2D\<close> as its parent box. \<open>Parts\<close> is a layout whose own
  \<open>Move2D\<close> is not in the sources either; it moves as a node of this tree does.
\<close>

function Move2D :: "float32_ops \<Rightarrow> Point \<Rightarrow> Rectangle \<Rightarrow> Node \<Rightarrow> Node" where
  "Move2D F delta parBBox g =
    (case Move2DBase F delta parBBox g of
       WidgetBase w kids \<Rightarrow>
         WidgetBase w (map (Move2D F delta (ChildrenBBox2DWidget F w)) kids)
     | PartsWidgetBase w parts kids \<Rightarrow>
         let parts = Move2D F delta parBBox parts
         in PartsWidgetBase w parts (map (Move2D F delta (ChildrenBBox2DWidget F w)) kids))"
  by pat_completeness auto
termination
proof -
  have size_cb: "size (ComputeBBox2D parBBox delta g) = size g" for parBBox delta g
    by (induction g) simp_all
  have kids_cb: "Kids (ComputeBBox2D parBBox delta g) = Kids g" for parBBox delta g
    by (cases g) simp_all
  have size_upd: "size (upd_fields f g) = size g" for f g
    by (cases g) simp_all
  have kids_upd: "Kids (upd_fields f g) = Kids g" for f g
    by (cases g) simp_all
  have size_mb: "size (Move2DBase F delta parBBox g) = size g" for F delta parBBox g
    by (simp add: Move2DBase_def size_cb size_upd)
  have kids_mb: "Kids (Move2DBase F delta parBBox g) = Kids g" for F delta parBBox g
    by (simp add: Move2DBase_def kids_cb kids_upd)
  have size_kids: "size k < size g" if "k \<in> set (Kids g)" for k g
  proof -
    from that have "size k \<le> size_list size (Kids g)"
      by (rule size_list_estimation') simp
    then show ?thesis
      by (cases g) simp_all
  qed
  show ?thesis
  proof (relation "measure (\<lambda>(F, delta, parBBox, g). size g)")
    show "wf (measure (\<lambda>(F, delta, parBBox, g). size g))"
      by simp
  next
    fix F delta parBBox g w kids k
    assume m: "Move2DBase F delta parBBox g = WidgetBase w kids" and k: "k \<in> set kids"
    have "Kids g = kids"
      using kids_mb[of F delta parBBox g] m by simp
    then show "((F, delta, ChildrenBBox2DWidget F w, k), F, delta, parBBox, g)
        \<in> measure (\<lambda>(F, delta, parBBox, g). size g)"
      using k size_kids[of k g] by simp
  next
    fix F delta parBBox g w parts kids
    assume m: "Move2DBase F delta parBBox g = PartsWidgetBase w parts kids"
    have "size (PartsWidgetBase w parts kids) = size g"
      using size_mb[of F delta parBBox g] m by simp
    then show "((F, delta, parBBox, parts), F, delta, parBBox, g)
        \<in> measure (\<lambda>(F, delta, parBBox, g). size g)"
      by simp
  next
    fix F delta parBBox g w parts kids p k
    assume m: "Move2DBase F delta parBBox g = PartsWidgetBase w parts kids" and k: "k \<in> set kids"
    have "Kids g = kids"
      using kids_mb[of F delta parBBox g] m by simp
    then show "((F, delta, ChildrenBBox2DWidget F w, k), F, delta, parBBox, g)
        \<in> measure (\<lambda>(F, delta, parBBox, g). size g)"
      using k size_kids[of k g] by simp
  qed
qed

declare Move2D.simps [simp del]

text \<open>
  All nodes of a subtree: the node, the nodes of its parts, and the nodes of its
  children in order.
\<close>

fun subtree :: "Node \<Rightarrow> WidgetFields list" where
  "subtree (WidgetBase w kids) = w # concat (map subtree kids)"
| "subtree (PartsWidgetBase w parts kids) = w # subtree parts @ concat (map subtree kids)"

subsection \<open>Rendering a node\<close>

definition and_then :: "panic + 'a \<Rightarrow> ('a \<Rightarrow> panic + 'b) \<Rightarrow> panic + 'b" where
  "and_then m f = (case m of Inl p \<Rightarrow> Inl p | Inr x \<Rightarrow> f x)"

text \<open>
  The tree passes, \<open>Render2DChildren\<close>, \<open>ConnectToViewport\<close> and the update bracket
  (\<open>UpdateStart\<close>, \<open>UpdateEndNoSig\<close>) are methods of the embedded node types that are
  not in the sources. They are parameters (the record \<open>P\<close>): whatever they do to the
  node, and whether or not they panic, the functions below call them as the source does.
\<close>

record node_passes =
  Init2DTree :: "Node \<Rightarrow> panic + Node"
  Style2DTree :: "Node \<Rightarrow> panic + Node"
  Size2DTree :: "Node \<Rightarrow> panic + Node"
  Layout2DTree :: "Node \<Rightarrow> panic + Node"
  Render2DTree :: "Node \<Rightarrow> panic + Node"
  Render2DChildren :: "Node \<Rightarrow> panic + Node"
  ConnectToViewport :: "Node \<Rightarrow> Node"
  UpdateStart :: "Node \<Rightarrow> bool \<times> Node"
  UpdateEndNoSig :: "bool \<Rightarrow> Node \<Rightarrow> Node"

text \<open>
  Modelled from the spec: the render state's \<open>PushBounds\<close> and \<open>PopBounds\<close> are not in
  the sources. The spec gives the drawing surface push and pop of clip bounds with stack
  discipline.
\<close>

definition RenderState_PushBounds :: "Rectangle \<Rightarrow> Viewport2D \<Rightarrow> Viewport2D" where
  "RenderState_PushBounds b vp = vp\<lparr>Render_BoundsStack := b # Render_BoundsStack vp\<rparr>"

definition RenderState_PopBounds :: "Viewport2D \<Rightarrow> Viewport2D" where
  "RenderState_PopBounds vp =
    (case Render_BoundsStack vp of
       [] \<Rightarrow> vp
     | b # rest \<Rightarrow> vp\<lparr>Render_BoundsStack := rest\<rparr>)"

text \<open>
  Modelled from the spec: \<open>DisconnectAllEvents\<close> is not in the sources. The spec's
  render entry point disconnects all input-event bindings of a node whose cached bounding
  box is empty; \<open>Render2D\<close> calls it with the priority \<open>RegPri\<close>.
\<close>

definition DisconnectAllEvents :: "EventPris \<Rightarrow> Node \<Rightarrow> Node" where
  "DisconnectAllEvents pri g = upd_fields (\<lambda>w. w\<lparr>EventBindings := []\<rparr>) g"

text \<open>
  \<open>ReRender2DTree\<close> saves the node's \<open>LayData\<close>, runs the init, style and size passes,
  puts the saved \<open>LayData\<close> back, and runs the layout and render passes.
\<close>

definition ReRender2DTree :: "node_passes \<Rightarrow> Node \<Rightarrow> panic + Node" where
  "ReRender2DTree P g =
    (let ld = LayData (AsWidget g);
         (updt, g) = UpdateStart P g
     in and_then (Init2DTree P g) (\<lambda>g.
        and_then (Style2DTree P g) (\<lambda>g.
        and_then (Size2DTree P g) (\<lambda>g.
        let g = upd_fields (\<lambda>w. w\<lparr>LayData := ld\<rparr>) g
        in and_then (Layout2DTree P g) (\<lambda>g.
           and_then (Render2DTree P g) (\<lambda>g.
           Inr (UpdateEndNoSig P updt g)))))))"

text \<open>
  \<open>FullReRenderIfNeeded\<close>, \<open>PushBounds\<close> and \<open>PopBounds\<close> return the node next to
  their boolean. The trace output under \<open>Render2DTrace\<close> is left out. Reading
  \<open>g.Viewport.Render\<close> through a \<open>nil\<close> viewport panics.
\<close>

definition FullReRenderIfNeeded :: "node_passes \<Rightarrow> Node \<Rightarrow> panic + (bool \<times> Node)" where
  "FullReRenderIfNeeded P g =
    (if \<not> Empty (VpBBox (AsWidget g)) \<and> NeedsFullReRender g
     then let g = ClearFullReRender g
          in and_then (ReRender2DTree P g) (\<lambda>g. Inr (True, g))
     else Inr (False, g))"

definition PushBounds :: "node_passes \<Rightarrow> Node \<Rightarrow> panic + (bool \<times> Node)" where
  "PushBounds P g =
    (if IsOverlay g
     then let g = ClearFullReRender g
          in if Viewport (AsWidget g) \<noteq> None
             then let g = ConnectToViewport P g
                  in (case Viewport (AsWidget g) of
                        None \<Rightarrow> Inl NilDereference
                      | Some vp \<Rightarrow>
                          Inr (True, upd_fields (\<lambda>w. w\<lparr>Viewport :=
                            Some (RenderState_PushBounds (Pixels_Bounds vp) vp)\<rparr>) g))
             else Inr (True, g)
     else if Empty (VpBBox (AsWidget g))
     then Inr (False, ClearFullReRender g)
     else (case Viewport (AsWidget g) of
             None \<Rightarrow> Inl NilDereference
           | Some vp \<Rightarrow>
               let g = upd_fields (\<lambda>w. w\<lparr>Viewport :=
                         Some (RenderState_PushBounds (VpBBox (AsWidget g)) vp)\<rparr>) g;
                   g = ConnectToViewport P g
               in Inr (True, g)))"

definition PopBounds :: "Node \<Rightarrow> panic + Node" where
  "PopBounds g =
    (let g = ClearFullReRender g
     in case Viewport (AsWidget g) of
          None \<Rightarrow> Inl NilDereference
        | Some vp \<Rightarrow> Inr (upd_fields (\<lambda>w. w\<lparr>Viewport := Some (RenderState_PopBounds vp)\<rparr>) g))"

definition Render2D :: "node_passes \<Rightarrow> Node \<Rightarrow> panic + Node" where
  "Render2D P g =
    and_then (FullReRenderIfNeeded P g) (\<lambda>(done, g).
      if done then Inr g
      else and_then (PushBounds P g) (\<lambda>(pushed, g).
        if pushed
        then and_then (Render2DChildren P g) PopBounds
        else Inr (DisconnectAllEvents RegPri g)))"

subsection \<open>A node and passes to run the render functions on\<close>

text \<open>
  Passes that leave a mark: the init pass connects a mouse event, the size pass resets
  the layout data, the layout pass sets the baseline position from the position, the
  other passes do nothing.
\<close>

definition zero_LayoutData :: LayoutData where
  "zero_LayoutData =
    \<lparr>Size_Pref = \<lparr>V_X = 0, V_Y = 0\<rparr>, AllocSize = \<lparr>V_X = 0, V_Y = 0\<rparr>,
     AllocPos = \<lparr>V_X = 0, V_Y = 0\<rparr>, AllocPosRel = \<lparr>V_X = 0, V_Y = 0\<rparr>,
     AllocPosOrig = \<lparr>V_X = 0, V_Y = 0\<rparr>\<rparr>"

definition marking_passes :: node_passes where
  "marking_passes =
    \<lparr>Init2DTree = (\<lambda>g. Inr (upd_fields (\<lambda>w. w\<lparr>EventBindings := [(MouseEvent, RegPri)]\<rparr>) g)),
     Style2DTree = Inr,
     Size2DTree = (\<lambda>g. Inr (upd_fields (\<lambda>w. w\<lparr>LayData := zero_LayoutData\<rparr>) g)),
     Layout2DTree = (\<lambda>g. Inr (upd_fields
        (\<lambda>w. w\<lparr>LayData := (LayData w)\<lparr>AllocPosOrig := AllocPos (LayData w)\<rparr>\<rparr>) g)),
     Render2DTree = Inr,
     Render2DChildren = Inr,
     ConnectToViewport = (\<lambda>g. g),
     UpdateStart = (\<lambda>g. (True, g)),
     UpdateEndNoSig = (\<lambda>updt g. g)\<rparr>"

definition dirty_widget :: "Rectangle \<Rightarrow> Node" where
  "dirty_widget vpbb =
    WidgetBase
      \<lparr>Flag = {FullReRender}, Viewport = None, BBox2D = vpbb, ObjBBox = vpbb, VpBBox = vpbb,
        WinBBox = vpbb,
        LayData = \<lparr>Size_Pref = \<lparr>V_X = 0, V_Y = 0\<rparr>, AllocSize = \<lparr>V_X = 30, V_Y = 20\<rparr>,
          AllocPos = \<lparr>V_X = 4, V_Y = 4\<rparr>, AllocPosRel = \<lparr>V_X = 4, V_Y = 4\<rparr>,
          AllocPosOrig = \<lparr>V_X = 2, V_Y = 2\<rparr>\<rparr>,
        Sty_BoxSpace = 0, EventBindings = [(MouseHoverEvent, RegPri)]\<rparr> []"

section \<open>Style resolution (package gi, \<open>style.go\<close>)\<close>

subsection \<open>Struct tags\<close>

text \<open>
  \<open>StyleField\<close> and \<open>WalkStyleStruct\<close> read the struct tags with
  \<open>reflect.StructTag.Get\<close> of Go's standard library. Its loop is transcribed here: skip
  leading spaces; the key is the run of characters above the space other than colon,
  quote and DEL; it must be non-empty and followed by a colon and a quote; the value runs
  to the next quote that no backslash precedes; if the key is the one asked for, the
  unquoted value is returned, otherwise the scan goes on right after the closing quote.
  Nothing but spaces is skipped between two pairs, so in a tag whose pairs are separated
  by commas every key after the first starts with a comma.

  Escape sequences are not decoded: a value with a backslash counts as not found (no tag
  of the sources has one). A value with a newline is a syntax error for \<open>Unquote\<close>,
  which ends the scan.
\<close>

definition tag_key_char :: "char \<Rightarrow> bool" where
  "tag_key_char c =
    ((of_char c :: nat) > 32 \<and> c \<noteq> CHR '':'' \<and> c \<noteq> CHR 0x22 \<and> c \<noteq> CHR 0x7F)"

fun scan_quoted :: "string \<Rightarrow> (string \<times> string) option" where
  "scan_quoted [] = None"
| "scan_quoted (c # cs) =
    (if c = CHR 0x22 then Some ([], cs)
     else if c = CHR 0x5C
     then (case cs of
             [] \<Rightarrow> None
           | d # ds \<Rightarrow> map_option (\<lambda>(v, r). (c # d # v, r)) (scan_quoted ds))
     else map_option (\<lambda>(v, r). (c # v, r)) (scan_quoted cs))"

definition Unquote :: "string \<Rightarrow> string option" where
  "Unquote v = (if CHR 0x5C \<in> set v \<or> CHR 0x0A \<in> set v then None else Some v)"

function Tag_Lookup :: "string \<Rightarrow> string \<Rightarrow> string option" where
  "Tag_Lookup tag key =
    (let tag = dropWhile (\<lambda>c. c = CHR '' '') tag
     in if tag = [] then None
        else
          let name = takeWhile tag_key_char tag;
              i = length name
          in if i = 0 \<or> i + 1 \<ge> length tag \<or> tag ! i \<noteq> CHR '':'' \<or> tag ! (i + 1) \<noteq> CHR 0x22
             then None
             else (case scan_quoted (drop (i + 2) tag) of
                     None \<Rightarrow> None
                   | Some (v, rest) \<Rightarrow>
                       if key = name then Unquote v else Tag_Lookup rest key))"
  by pat_completeness auto
termination
proof -
  have shorter: "length r < length s" if "scan_quoted s = Some (v, r)" for s v r
    using that
  proof (induction s arbitrary: v r rule: scan_quoted.induct)
    case 1
    then show ?case by simp
  next
    case (2 c cs)
    show ?case
    proof (cases "c = CHR 0x22")
      case True
      with 2(3) show ?thesis by simp
    next
      case nq: False
      show ?thesis
      proof (cases "c = CHR 0x5C")
        case True
        with nq 2(3) obtain d ds v' where cs: "cs = d # ds"
          and s: "scan_quoted ds = Some (v', r)"
          by (auto split: list.splits)
        from 2(1)[OF nq True cs s] cs show ?thesis by simp
      next
        case False
        with nq 2(3) obtain v' where s: "scan_quoted cs = Some (v', r)"
          by auto
        from 2(2)[OF nq False s] show ?thesis by simp
      qed
    qed
  qed
  show ?thesis
  proof (relation "measure (\<lambda>(tag, key). length tag)")
    show "wf (measure (\<lambda>(tag, key). length tag))"
      by simp
  next
    fix tag key :: string and tag' name i sq v rest
    assume tag': "tag' = dropWhile (\<lambda>c. c = CHR '' '') tag"
      and sq: "scan_quoted (drop (i + 2) tag') = Some sq" and vr: "(v, rest) = sq"
    have "length rest < length (drop (i + 2) tag')"
      using shorter[of "drop (i + 2) tag'" v rest] sq vr by simp
    also have "\<dots> \<le> length tag'"
      by simp
    also have "\<dots> \<le> length tag"
      unfolding tag' by (rule length_dropWhile_le)
    finally show "((rest, key), tag, key) \<in> measure (\<lambda>(tag, key). length tag)"
      by simp
  qed
qed

declare Tag_Lookup.simps [simp del]

definition Tag_Get :: "string \<Rightarrow> string \<Rightarrow> string" where
  "Tag_Get tag key = (case Tag_Lookup tag key of None \<Rightarrow> [] | Some v \<Rightarrow> v)"

subsection \<open>Values seen through reflection\<close>

text \<open>
  A struct value is its type name and its fields in order, each with the field's name,
  its tag and its value. \<open>Color\<close> (a struct named Color) and \<open>units.Value\<close> (a struct
  named Value) are not in the sources: their values are of the type parameters \<open>'c\<close>
  and \<open>'u\<close>, and their methods are parameters (the record \<open>S\<close>). \<open>RInt\<close> is a value
  of a named integer type such as \<open>BorderDrawStyle\<close>.
\<close>

type_synonym float64 = "64 word"

datatype ('c, 'u) rvalue =
  RBool bool
  | RFloat64 float64
  | RInt string int
  | RColor 'c
  | RUnits 'u
  | RStruct string "('c, 'u) rfield list"
and ('c, 'u) rfield =
  RField string string "('c, 'u) rvalue"

fun type_name :: "('c, 'u) rvalue \<Rightarrow> string" where
  "type_name (RBool b) = ''bool''"
| "type_name (RFloat64 x) = ''float64''"
| "type_name (RInt n i) = n"
| "type_name (RColor c) = ''Color''"
| "type_name (RUnits u) = ''Value''"
| "type_name (RStruct n fs) = n"

text \<open>
  A property value (\<open>interface{}\<close>): a string, a \<open>units.Value\<close>, a number, a bool,
  \<open>nil\<close>, or a value of some other type that does not convert to \<open>float64\<close> (a pointer,
  a struct, a slice).
\<close>

datatype 'u propval =
  PString string
  | PUnits 'u
  | PFloat64 float64
  | PInt int
  | PBool bool
  | PNil
  | POther

datatype logmsg =
  BadInheritTag string
  | StyleFieldError string
  | NotAStruct
  | InheritTypeMismatch

text \<open>
  The methods of \<open>Color\<close> and \<open>units.Value\<close>, the enum registry of package \<open>ki\<close> and
  the \<open>SetStylePost\<close> methods are not in the sources; they are the parameters \<open>S\<close>.
  What a parser does with a string is its own affair, a panic included: each of the
  setters that \<open>StyleField\<close> calls returns a panic or its result.
  \<open>Color.SetFromString\<close> returns an error or \<open>nil\<close> next to the color it leaves in
  the field.
\<close>

record ('c, 'u) style_ops =
  Color_SetFromString :: "string \<Rightarrow> 'c \<Rightarrow> panic + (string option \<times> 'c)"
  Units_SetFromString :: "string \<Rightarrow> 'u \<Rightarrow> panic + 'u"
  Units_Set_Px :: "float64 \<Rightarrow> 'u \<Rightarrow> panic + 'u"
  FindEnum :: "string \<Rightarrow> bool"
  SetEnumValueFromAltString :: "string \<Rightarrow> string \<Rightarrow> int \<Rightarrow> panic + int"
  f64_of_int :: "int \<Rightarrow> float64"
  Layout_SetStylePost :: "('c, 'u) rvalue \<Rightarrow> ('c, 'u) rvalue"
  Font_SetStylePost :: "('c, 'u) rvalue \<Rightarrow> ('c, 'u) rvalue"
  Text_SetStylePost :: "('c, 'u) rvalue \<Rightarrow> ('c, 'u) rvalue"

text \<open>
  A function that logs and may panic returns the lines it logged and its result.
\<close>

type_synonym 'a logged = "logmsg list \<times> (panic + 'a)"

text \<open>
  \<open>reflect.ValueOf(prv).Convert(reflect.TypeOf(0.0))\<close>: a number converts, anything
  else panics (\<open>nil\<close> gives the zero \<open>Value\<close>, whose \<open>Convert\<close> panics as well).
\<close>

fun convert_float64 :: "('c, 'u) style_ops \<Rightarrow> 'u propval \<Rightarrow> panic + float64" where
  "convert_float64 S (PFloat64 x) = Inr x"
| "convert_float64 S (PInt n) = Inr (f64_of_int S n)"
| "convert_float64 S PNil = Inl ReflectZeroValue"
| "convert_float64 S prv = Inl ReflectConvert"

text \<open>
  The last statement of \<open>StyleField\<close>,
  \<open>vf.Set(reflect.ValueOf(prv).Convert(reflect.TypeOf(vt)))\<close>: \<open>vt\<close> is a
  \<open>reflect.Type\<close>, so \<open>reflect.TypeOf(vt)\<close> is the type of the type descriptor itself
  (\<open>*reflect.rtype\<close>), not the field's type. No property value of \<open>propval\<close> converts
  to it.
\<close>

fun convert_to_type_of_type :: "'u propval \<Rightarrow> panic" where
  "convert_to_type_of_type PNil = ReflectZeroValue"
| "convert_to_type_of_type prv = ReflectConvert"

subsection \<open>\<open>StyleField\<close>\<close>

text \<open>
  \<open>sftag\<close> is the field's tag, \<open>vf\<close> the field's value, \<open>pf\<close> and \<open>df\<close> the same
  field of the parent and of the defaults, \<open>None\<close> for the zero \<open>reflect.Value\<close> that
  \<open>WalkStyleStruct\<close> passes when there is no parent or no defaults. \<open>vf.Set\<close> of a zero
  \<open>Value\<close> panics.
\<close>

definition set_from :: "('c, 'u) rvalue option \<Rightarrow> panic + ('c, 'u) rvalue" where
  "set_from src = (case src of None \<Rightarrow> Inl ReflectZeroValue | Some v \<Rightarrow> Inr v)"

definition StyleField ::
  "('c, 'u) style_ops \<Rightarrow> string \<Rightarrow> ('c, 'u) rvalue \<Rightarrow> ('c, 'u) rvalue option \<Rightarrow>
   ('c, 'u) rvalue option \<Rightarrow> bool \<Rightarrow> string \<Rightarrow> (string \<rightharpoonup> 'u propval) \<Rightarrow> ('c, 'u) rvalue logged"
where
  "StyleField S sftag vf pf df hasPar tag props =
    (let inhs = Tag_Get sftag ''inherit'';
         inherited = (if inhs = ''true'' \<and> hasPar then set_from pf else Inr vf);
         log = (if inhs \<noteq> ''true'' \<and> inhs \<noteq> [] \<and> inhs \<noteq> ''false''
                then [BadInheritTag inhs] else [])
     in case inherited of
          Inl p \<Rightarrow> (log, Inl p)
        | Inr vf \<Rightarrow>
            (case props tag of
               None \<Rightarrow> (log, Inr vf)
             | Some prv \<Rightarrow>
                 let prstr = (case prv of PString s \<Rightarrow> s | _ \<Rightarrow> [])
                 in if prv = PString ''inherit'' \<and> hasPar then (log, set_from pf)
                    else if prv = PString ''initial'' \<and> hasPar then (log, set_from df)
                    else
                      (case vf of
                         RColor c \<Rightarrow>
                           (case Color_SetFromString S prstr c of
                              Inl p \<Rightarrow> (log, Inl p)
                            | Inr (None, c') \<Rightarrow> (log, Inr (RColor c'))
                            | Inr (Some err, c') \<Rightarrow>
                                (log @ [StyleFieldError err], Inr (RColor c')))
                       | RUnits u \<Rightarrow>
                           (case prv of
                              PString s \<Rightarrow> (log, map_sum (\<lambda>p. p) RUnits (Units_SetFromString S s u))
                            | PUnits v \<Rightarrow> (log, Inr (RUnits v))
                            | _ \<Rightarrow>
                                (case convert_float64 S prv of
                                   Inl p \<Rightarrow> (log, Inl p)
                                 | Inr x \<Rightarrow> (log, map_sum (\<lambda>p. p) RUnits (Units_Set_Px S x u))))
                       | RStruct n fs \<Rightarrow> (log, Inr vf)
                       | RInt n i \<Rightarrow>
                           if FindEnum S n
                           then (log, map_sum (\<lambda>p. p) (RInt n)
                                   (SetEnumValueFromAltString S n prstr i))
                           else (log, Inr vf)
                       | _ \<Rightarrow> (log, Inl (convert_to_type_of_type prv)))))"

subsection \<open>\<open>WalkStyleStruct\<close>\<close>

text \<open>
  A field is exported (its \<open>PkgPath\<close> is empty) when its name starts with an upper-case
  letter; the names of the sources are ASCII. Two types are the same (\<open>pt != ot\<close>) when
  their names are.
\<close>

definition exported :: "string \<Rightarrow> bool" where
  "exported nm =
    (case nm of [] \<Rightarrow> False | c # cs \<Rightarrow> (65::nat) \<le> of_char c \<and> (of_char c :: nat) \<le> 90)"

definition tagEff :: "string \<Rightarrow> string \<Rightarrow> string" where
  "tagEff outerTag tag =
    (if outerTag \<noteq> [] \<and> length tag > 0
     then (if hd tag = CHR ''.'' then outerTag @ tag else outerTag @ ''-'' @ tag)
     else tag)"

text \<open>
  \<open>reflect.ValueOf(parent).Elem().Field(i)\<close>: the \<open>i\<close>-th field, a panic when there is
  none.
\<close>

fun field_at :: "('c, 'u) rvalue option \<Rightarrow> nat \<Rightarrow> panic + ('c, 'u) rvalue option" where
  "field_at None i = Inr None"
| "field_at (Some (RStruct n fs)) i =
    (if i < length fs then (case fs ! i of RField nm tg v \<Rightarrow> Inr (Some v))
     else Inl ReflectFieldIndex)"
| "field_at (Some v) i = Inl ReflectFieldIndex"

text \<open>
  The walk: \<open>WalkStyleStruct\<close> on a struct, \<open>walk_fields\<close> for its loop over the fields
  from index \<open>i\<close> on, \<open>walk_field\<close> for the body of the loop. The body first decides
  (\<open>field_step\<close>) whether the field is skipped (unexported, or with a dash for its xml tag) and
  reads the same field of the parent and of the defaults; a struct other than \<open>Value\<close>
  and \<open>Color\<close> is walked with the field's own tag as the outer tag, any other field with
  a tag goes to \<open>StyleField\<close>. A panic ends the walk; the fields set before it keep their
  new values in the source, which the result \<open>Inl\<close> does not record.
\<close>

datatype ('c, 'u) field_step =
  Skip
  | Panicked panic
  | Visit string "('c, 'u) rvalue option" "('c, 'u) rvalue option"

definition field_step ::
  "string \<Rightarrow> string \<Rightarrow> nat \<Rightarrow> ('c, 'u) rvalue option \<Rightarrow> ('c, 'u) rvalue option \<Rightarrow>
   ('c, 'u) field_step"
where
  "field_step nm sftag i parent defs =
    (if \<not> exported nm then Skip
     else
       let tag = Tag_Get sftag ''xml''
       in if tag = ''-'' then Skip
          else
            (case field_at parent i of
               Inl p \<Rightarrow> Panicked p
             | Inr pf \<Rightarrow>
                 (case field_at defs i of
                    Inl p \<Rightarrow> Panicked p
                  | Inr df \<Rightarrow> Visit tag pf df)))"

fun walked_struct :: "('c, 'u) rvalue \<Rightarrow> bool" where
  "walked_struct (RStruct n fs) = (n \<noteq> ''Value'' \<and> n \<noteq> ''Color'')"
| "walked_struct v = False"

function (sequential) WalkStyleStruct ::
  "('c, 'u) style_ops \<Rightarrow> ('c, 'u) rvalue \<Rightarrow> ('c, 'u) rvalue option \<Rightarrow> ('c, 'u) rvalue option \<Rightarrow>
   string \<Rightarrow> (string \<rightharpoonup> 'u propval) \<Rightarrow> ('c, 'u) rvalue logged"
and walk_fields ::
  "('c, 'u) style_ops \<Rightarrow> ('c, 'u) rfield list \<Rightarrow> nat \<Rightarrow> ('c, 'u) rvalue option \<Rightarrow>
   ('c, 'u) rvalue option \<Rightarrow> string \<Rightarrow> (string \<rightharpoonup> 'u propval) \<Rightarrow> ('c, 'u) rfield list logged"
and walk_field ::
  "('c, 'u) style_ops \<Rightarrow> ('c, 'u) rfield \<Rightarrow> nat \<Rightarrow> ('c, 'u) rvalue option \<Rightarrow>
   ('c, 'u) rvalue option \<Rightarrow> string \<Rightarrow> (string \<rightharpoonup> 'u propval) \<Rightarrow> ('c, 'u) rvalue logged"
where
  "WalkStyleStruct S (RStruct n fs) parent defs outerTag props =
    (let mismatch = (case parent of None \<Rightarrow> False | Some p \<Rightarrow> type_name p \<noteq> n);
         parent = (if mismatch then None else parent);
         log0 = (if mismatch then [InheritTypeMismatch] else [])
     in case walk_fields S fs 0 parent defs outerTag props of
          (log, r) \<Rightarrow> (log0 @ log, map_sum (\<lambda>p. p) (RStruct n) r))"
| "WalkStyleStruct S v parent defs outerTag props = ([NotAStruct], Inr v)"
| "walk_fields S [] i parent defs outerTag props = ([], Inr [])"
| "walk_fields S (RField nm sftag vf # fs) i parent defs outerTag props =
    (case walk_field S (RField nm sftag vf) i parent defs outerTag props of
       (log, Inl p) \<Rightarrow> (log, Inl p)
     | (log, Inr v) \<Rightarrow>
         (case walk_fields S fs (i + 1) parent defs outerTag props of
            (log', r) \<Rightarrow> (log @ log', map_sum (\<lambda>p. p) ((#) (RField nm sftag v)) r)))"
| "walk_field S (RField nm sftag vf) i parent defs outerTag props =
    (case field_step nm sftag i parent defs of
       Skip \<Rightarrow> ([], Inr vf)
     | Panicked p \<Rightarrow> ([], Inl p)
     | Visit tag pf df \<Rightarrow>
         if walked_struct vf then WalkStyleStruct S vf pf df tag props
         else if tag = [] then ([], Inr vf)
         else StyleField S sftag vf pf df (parent \<noteq> None) (tagEff outerTag tag) props)"
  by pat_completeness auto
termination
  by (relation "measure (\<lambda>x. case x of
        Inl (S, obj, parent, defs, outerTag, props) \<Rightarrow> size obj
      | Inr (Inl (S, fs, i, parent, defs, outerTag, props)) \<Rightarrow> size_list size fs
      | Inr (Inr (S, f, i, parent, defs, outerTag, props)) \<Rightarrow> size f)") auto

subsection \<open>\<open>SetStyle\<close> and the \<open>Style\<close> struct\<close>

fun get_field :: "string \<Rightarrow> ('c, 'u) rvalue \<Rightarrow> ('c, 'u) rvalue option" where
  "get_field nm (RStruct n fs) =
    (case filter (\<lambda>f. case f of RField nm' tg v \<Rightarrow> nm' = nm) fs of
       [] \<Rightarrow> None
     | RField nm' tg v # rest \<Rightarrow> Some v)"
| "get_field nm v = None"

fun upd_field ::
  "string \<Rightarrow> (('c, 'u) rvalue \<Rightarrow> ('c, 'u) rvalue) \<Rightarrow> ('c, 'u) rvalue \<Rightarrow> ('c, 'u) rvalue"
where
  "upd_field nm f (RStruct n fs) =
    RStruct n (map (\<lambda>fd. case fd of RField nm' tg v \<Rightarrow>
                     if nm' = nm then RField nm' tg (f v) else RField nm' tg v) fs)"
| "upd_field nm f v = v"

text \<open>
  \<open>SetStyle\<close> walks the style with \<open>StyleField\<close>, then calls \<open>SetStylePost\<close> on the
  layout, font and text styles (not in the sources: parameters) and sets \<open>IsSet\<close>.
\<close>

definition SetStyle ::
  "('c, 'u) style_ops \<Rightarrow> ('c, 'u) rvalue \<Rightarrow> ('c, 'u) rvalue option \<Rightarrow> ('c, 'u) rvalue option \<Rightarrow>
   (string \<rightharpoonup> 'u propval) \<Rightarrow> ('c, 'u) rvalue logged"
where
  "SetStyle S s parent defs props =
    (case WalkStyleStruct S s parent defs [] props of
       (log, Inl p) \<Rightarrow> (log, Inl p)
     | (log, Inr s) \<Rightarrow>
         let s = upd_field ''Layout'' (Layout_SetStylePost S) s;
             s = upd_field ''Font'' (Font_SetStylePost S) s;
             s = upd_field ''Text'' (Text_SetStylePost S) s;
             s = upd_field ''IsSet'' (\<lambda>v. RBool True) s
         in (log, Inr s))"

text \<open>
  For comparison, the tag of \<open>Style.Color\<close> with its pairs separated by spaces, the
  form \<open>reflect.StructTag.Get\<close> reads.
\<close>

definition spaced_Color_tag :: string where
  \<open>spaced_Color_tag = ''xml:"color" inherit:"true" desc:"text color"''\<close>

text \<open>The struct tags, as the source writes them between its back quotes.\<close>

definition BorderStyle_Style_tag :: string where
  \<open>BorderStyle_Style_tag = ''xml:"style",desc:"how to draw the border"''\<close>

definition BorderStyle_Width_tag :: string where
  \<open>BorderStyle_Width_tag = ''xml:"width",desc:"width of the border"''\<close>

definition BorderStyle_Radius_tag :: string where
  \<open>BorderStyle_Radius_tag = ''xml:"radius",desc:"rounding of the corners"''\<close>

definition BorderStyle_Color_tag :: string where
  \<open>BorderStyle_Color_tag = ''xml:"color",desc:"color of the border"''\<close>

definition ShadowStyle_HOffset_tag :: string where
  \<open>ShadowStyle_HOffset_tag = ''xml:".h-offset",desc:"horizontal offset of shadow -- positive = right side, negative = left side"''\<close>

definition ShadowStyle_VOffset_tag :: string where
  \<open>ShadowStyle_VOffset_tag = ''xml:".v-offset",desc:"vertical offset of shadow -- positive = below, negative = above"''\<close>

definition ShadowStyle_Blur_tag :: string where
  \<open>ShadowStyle_Blur_tag = ''xml:".blur",desc:"blur radius -- higher numbers = more blurry"''\<close>

definition ShadowStyle_Spread_tag :: string where
  \<open>ShadowStyle_Spread_tag = ''xml:".spread",desc:"spread radius -- positive number increases size of shadow, negative descreases size"''\<close>

definition ShadowStyle_Color_tag :: string where
  \<open>ShadowStyle_Color_tag = ''xml:".color",desc:"color of the shadow"''\<close>

definition ShadowStyle_Inset_tag :: string where
  \<open>ShadowStyle_Inset_tag = ''xml:".inset",desc:"shadow is inset within box instead of outset outside of box"''\<close>

definition BackgroundStyle_Color_tag :: string where
  \<open>BackgroundStyle_Color_tag = ''xml:"color",desc:"background color"''\<close>

definition Style_IsSet_tag :: string where
  \<open>Style_IsSet_tag = ''desc:"has this style been set from object values yet?"''\<close>

definition Style_Display_tag :: string where
  \<open>Style_Display_tag = ''xml:display",desc:"todo big enum of how to display item -- controls layout etc"''\<close>

definition Style_Visible_tag :: string where
  \<open>Style_Visible_tag = ''xml:visible",desc:"todo big enum of how to display item -- controls layout etc"''\<close>

definition Style_UnContext_tag :: string where
  \<open>Style_UnContext_tag = ''desc:"units context -- parameters necessary for anchoring relative units"''\<close>

definition Style_Layout_tag :: string where
  \<open>Style_Layout_tag = ''desc:"layout styles -- do not prefix with any xml"''\<close>

definition Style_Border_tag :: string where
  \<open>Style_Border_tag = ''xml:"border",desc:"border around the box element -- todo: can have separate ones for different sides"''\<close>

definition Style_BoxShadow_tag :: string where
  \<open>Style_BoxShadow_tag = ''xml:"box-shadow",desc:"type of shadow to render around box"''\<close>

definition Style_Padding_tag :: string where
  \<open>Style_Padding_tag = ''xml:"padding",desc:"transparent space around central content of box -- todo: if 4 values it is top, right, bottom, left; 3 is top, right&left, bottom; 2 is top & bottom, right and left"''\<close>

definition Style_Font_tag :: string where
  \<open>Style_Font_tag = ''xml:"font",desc:"font parameters"''\<close>

definition Style_Text_tag :: string where
  \<open>Style_Text_tag = ''desc:"text parameters -- no xml prefix"''\<close>

definition Style_Color_tag :: string where
  \<open>Style_Color_tag = ''xml:"color",inherit:"true",desc:"text color"''\<close>

definition Style_Background_tag :: string where
  \<open>Style_Background_tag = ''xml:"background",desc:"background settings"''\<close>

definition Style_Opacity_tag :: string where
  \<open>Style_Opacity_tag = ''xml:"opacity",desc:"alpha value to apply to all elements"''\<close>

definition Style_Outline_tag :: string where
  \<open>Style_Outline_tag = ''xml:"outline",desc:"draw an outline around an element -- mostly same styles as border -- default to none"''\<close>

definition Style_PointerEvents_tag :: string where
  \<open>Style_PointerEvents_tag = ''xml:"pointer-events",desc:"does this element respond to pointer events -- default is true"''\<close>

text \<open>
  The structs of \<open>style.go\<close> as reflection sees them. \<open>units.Context\<close>,
  \<open>LayoutStyle\<close>, \<open>FontStyle\<close> and \<open>TextStyle\<close> are declared elsewhere: a \<open>Style\<close>
  takes their values as it finds them.
\<close>

definition BorderStyle_value :: "int \<Rightarrow> 'u \<Rightarrow> 'u \<Rightarrow> 'c \<Rightarrow> ('c, 'u) rvalue" where
  "BorderStyle_value style width radius color =
    RStruct ''BorderStyle''
      [RField ''Style'' BorderStyle_Style_tag (RInt ''BorderDrawStyle'' style),
       RField ''Width'' BorderStyle_Width_tag (RUnits width),
       RField ''Radius'' BorderStyle_Radius_tag (RUnits radius),
       RField ''Color'' BorderStyle_Color_tag (RColor color)]"

definition ShadowStyle_value :: "'u \<Rightarrow> 'u \<Rightarrow> 'u \<Rightarrow> 'u \<Rightarrow> 'c \<Rightarrow> bool \<Rightarrow> ('c, 'u) rvalue" where
  "ShadowStyle_value hoffset voffset blur spread color inset =
    RStruct ''ShadowStyle''
      [RField ''HOffset'' ShadowStyle_HOffset_tag (RUnits hoffset),
       RField ''VOffset'' ShadowStyle_VOffset_tag (RUnits voffset),
       RField ''Blur'' ShadowStyle_Blur_tag (RUnits blur),
       RField ''Spread'' ShadowStyle_Spread_tag (RUnits spread),
       RField ''Color'' ShadowStyle_Color_tag (RColor color),
       RField ''Inset'' ShadowStyle_Inset_tag (RBool inset)]"

definition BackgroundStyle_value :: "'c \<Rightarrow> ('c, 'u) rvalue" where
  "BackgroundStyle_value color =
    RStruct ''BackgroundStyle'' [RField ''Color'' BackgroundStyle_Color_tag (RColor color)]"

definition Style_value ::
  "bool \<Rightarrow> bool \<Rightarrow> bool \<Rightarrow> ('c, 'u) rvalue \<Rightarrow> ('c, 'u) rvalue \<Rightarrow> ('c, 'u) rvalue \<Rightarrow>
   ('c, 'u) rvalue \<Rightarrow> 'u \<Rightarrow> ('c, 'u) rvalue \<Rightarrow> ('c, 'u) rvalue \<Rightarrow> 'c \<Rightarrow> ('c, 'u) rvalue \<Rightarrow>
   float64 \<Rightarrow> ('c, 'u) rvalue \<Rightarrow> bool \<Rightarrow> ('c, 'u) rvalue"
where
  "Style_value isSet display visible unContext layout border boxShadow padding font text color
      background opacity outline pointerEvents =
    RStruct ''Style''
      [RField ''IsSet'' Style_IsSet_tag (RBool isSet),
       RField ''Display'' Style_Display_tag (RBool display),
       RField ''Visible'' Style_Visible_tag (RBool visible),
       RField ''UnContext'' Style_UnContext_tag unContext,
       RField ''Layout'' Style_Layout_tag layout,
       RField ''Border'' Style_Border_tag border,
       RField ''BoxShadow'' Style_BoxShadow_tag boxShadow,
       RField ''Padding'' Style_Padding_tag (RUnits padding),
       RField ''Font'' Style_Font_tag font,
       RField ''Text'' Style_Text_tag text,
       RField ''Color'' Style_Color_tag (RColor color),
       RField ''Background'' Style_Background_tag background,
       RField ''Opacity'' Style_Opacity_tag (RFloat64 opacity),
       RField ''Outline'' Style_Outline_tag outline,
       RField ''PointerEvents'' Style_PointerEvents_tag (RBool pointerEvents)]"

subsection \<open>Styles to run the resolution on\<close>

text \<open>
  Colors are numbers and lengths are whole dots here; \<open>SetFromString\<close> of a color knows
  two names and reports any other string, leaving the color as it was. The structs
  declared elsewhere have no fields here. \<open>plain_style c o\<close> is a style with text color
  \<open>c\<close> and opacity \<open>o\<close>.
\<close>

definition plain_ops :: "(nat, int) style_ops" where
  "plain_ops =
    \<lparr>Color_SetFromString = (\<lambda>s c. if s = ''red'' then Inr (None, 1)
                                   else if s = ''blue'' then Inr (None, 2)
                                   else Inr (Some ''unknown color'', c)),
     Units_SetFromString = (\<lambda>s u. Inr u),
     Units_Set_Px = (\<lambda>x u. Inr (sint x)),
     FindEnum = (\<lambda>n. n = ''BorderDrawStyle''),
     SetEnumValueFromAltString =
       (\<lambda>n s i. if s = ''solid'' then Inr 0 else if s = ''none'' then Inr 8 else Inr i),
     f64_of_int = word_of_int,
     Layout_SetStylePost = (\<lambda>v. v),
     Font_SetStylePost = (\<lambda>v. v),
     Text_SetStylePost = (\<lambda>v. v)\<rparr>"

definition plain_style :: "nat \<Rightarrow> float64 \<Rightarrow> (nat, int) rvalue" where
  "plain_style c opacity =
    Style_value False False False (RStruct ''Context'' []) (RStruct ''LayoutStyle'' [])
      (BorderStyle_value 0 0 0 0) (ShadowStyle_value 0 0 0 0 0 False) 0
      (RStruct ''FontStyle'' []) (RStruct ''TextStyle'' []) c (BackgroundStyle_value 0)
      opacity (BorderStyle_value 8 0 0 0) True"

chapter \<open>Properties\<close>

section \<open>Validation of the mesh arrays\<close>




section \<open>The plane grid\<close>

text \<open>
  A loop counter below its bound is below the largest \<open>int64\<close>: its increment does
  not wrap around.
\<close>

lemma sint_succ_below:
  fixes x b :: int64
  assumes "sint x < sint b"
  shows "sint (x + 1) = sint x + 1"
proof -
  have "sint b < 2 ^ 63" and "- (2 ^ 63) \<le> sint x"
    using sint_lt [of b] sint_ge [of x] by simp_all
  then show ?thesis
    using assms by (simp add: sint_word_ariths signed_take_bit_int_eq_self)
qed

text \<open>
  Each loop of \<open>AddPlane\<close> only appends. The lemmas follow the loops from the inside
  out, by induction along each loop's own recursion.
\<close>

lemma AppendVec3_appends: "\<exists>vs. AppendVec3 a v = a @ vs \<and> length vs = 3"
  by (cases v) simp

lemma AppendVec4_appends: "\<exists>vs. AppendVec4 a v = a @ vs \<and> length vs = 4"
  by (cases v) simp

lemma plane_vertex_appends:
  "\<exists>vs ns ts cs. Vtx (plane_vertex F C p iy ix ms) = Vtx ms @ vs \<and> length vs = 3 \<and>
     Norm (plane_vertex F C p iy ix ms) = Norm ms @ ns \<and> length ns = 3 \<and>
     TexUV (plane_vertex F C p iy ix ms) = TexUV ms @ ts \<and> length ts = 2 \<and>
     Color (plane_vertex F C p iy ix ms) = Color ms @ cs \<and>
     length cs = (if IsNil C (p_clr p) then 0 else 4) \<and>
     Idx (plane_vertex F C p iy ix ms) = Idx ms"
proof -
  obtain vs where vs: "AppendVec3 (Vtx ms)
      (SetDim (p_w p) (p_zoff p)
        (SetDim (p_haxis p)
          (f32_add F (f32_mul F (f32_mul F (f32_of_int F (sint iy)) (p_segHeight p)) (p_fhdir p)) (p_hoff p))
          (SetDim (p_waxis p)
            (f32_add F (f32_mul F (f32_mul F (f32_of_int F (sint ix)) (p_segWidth p)) (p_fwdir p)) (p_woff p))
            (Vec3 0 0 0)))) = Vtx ms @ vs" "length vs = 3"
    using AppendVec3_appends by blast
  obtain ns where ns: "AppendVec3 (Norm ms) (p_norm p) = Norm ms @ ns" "length ns = 3"
    using AppendVec3_appends by blast
  obtain cs where cs: "AppendVec4 (Color ms) (ColorToVec4f C (p_clr p)) = Color ms @ cs"
      "length cs = 4"
    using AppendVec4_appends by blast
  show ?thesis
    using vs ns cs by (simp add: plane_vertex_def Let_def)
qed

lemma AddPlane_vtx_ix_appends:
  "\<exists>vs ns ts cs. Vtx (AddPlane_vtx_ix F C p iy ix ms) = Vtx ms @ vs \<and>
      Norm (AddPlane_vtx_ix F C p iy ix ms) = Norm ms @ ns \<and>
      TexUV (AddPlane_vtx_ix F C p iy ix ms) = TexUV ms @ ts \<and>
      Color (AddPlane_vtx_ix F C p iy ix ms) = Color ms @ cs \<and>
      Idx (AddPlane_vtx_ix F C p iy ix ms) = Idx ms \<and>
      len vs = 3 * max 0 (sint (p_wsegs1 p) - sint ix) \<and> len ns = 3 * max 0 (sint (p_wsegs1 p) - sint ix) \<and>
      len ts = 2 * max 0 (sint (p_wsegs1 p) - sint ix) \<and>
      len cs = (if IsNil C (p_clr p) then 0 else 4) * max 0 (sint (p_wsegs1 p) - sint ix)"
proof (induction F C p iy ix ms rule: AddPlane_vtx_ix.induct)
  case (1 F C p iy ix ms)
  show ?case
  proof (cases "sint ix < sint (p_wsegs1 p)")
    case True
    note succ = sint_succ_below [OF True]
    let ?m = "plane_vertex F C p iy ix ms"
    obtain vs ns ts cs where a: "Vtx ?m = Vtx ms @ vs" "length vs = 3"
      "Norm ?m = Norm ms @ ns" "length ns = 3" "TexUV ?m = TexUV ms @ ts" "length ts = 2"
      "Color ?m = Color ms @ cs" "length cs = (if IsNil C (p_clr p) then 0 else 4)"
      "Idx ?m = Idx ms"
      using plane_vertex_appends[of F C p iy ix ms] by blast
    obtain vs' ns' ts' cs' where b:
      "Vtx (AddPlane_vtx_ix F C p iy (ix + 1) ?m) = Vtx ?m @ vs'"
      "Norm (AddPlane_vtx_ix F C p iy (ix + 1) ?m) = Norm ?m @ ns'"
      "TexUV (AddPlane_vtx_ix F C p iy (ix + 1) ?m) = TexUV ?m @ ts'"
      "Color (AddPlane_vtx_ix F C p iy (ix + 1) ?m) = Color ?m @ cs'"
      "Idx (AddPlane_vtx_ix F C p iy (ix + 1) ?m) = Idx ?m"
      "len vs' = 3 * max 0 (sint (p_wsegs1 p) - sint (ix + 1))"
      "len ns' = 3 * max 0 (sint (p_wsegs1 p) - sint (ix + 1))"
      "len ts' = 2 * max 0 (sint (p_wsegs1 p) - sint (ix + 1))"
      "len cs' = (if IsNil C (p_clr p) then 0 else 4) * max 0 (sint (p_wsegs1 p) - sint (ix + 1))"
      using 1[OF True] by blast
    have step: "AddPlane_vtx_ix F C p iy ix ms = AddPlane_vtx_ix F C p iy (ix + 1) ?m"
      using True by simp
    have "Vtx (AddPlane_vtx_ix F C p iy ix ms) = Vtx ms @ (vs @ vs')"
      "Norm (AddPlane_vtx_ix F C p iy ix ms) = Norm ms @ (ns @ ns')"
      "TexUV (AddPlane_vtx_ix F C p iy ix ms) = TexUV ms @ (ts @ ts')"
      "Color (AddPlane_vtx_ix F C p iy ix ms) = Color ms @ (cs @ cs')"
      "Idx (AddPlane_vtx_ix F C p iy ix ms) = Idx ms"
      using a b by (simp_all only: step append_assoc)
    moreover have "len (vs @ vs') = 3 * max 0 (sint (p_wsegs1 p) - sint ix)"
      "len (ns @ ns') = 3 * max 0 (sint (p_wsegs1 p) - sint ix)"
      "len (ts @ ts') = 2 * max 0 (sint (p_wsegs1 p) - sint ix)"
      "len (cs @ cs') = (if IsNil C (p_clr p) then 0 else 4) * max 0 (sint (p_wsegs1 p) - sint ix)"
      using a(2,4,6,8) b(6-9) True by (auto simp: len_def succ)
    ultimately show ?thesis by blast
  next
    case False
    then show ?thesis by (simp add: len_def)
  qed
qed

lemma AddPlane_vtx_iy_appends:
  "\<exists>vs ns ts cs. Vtx (AddPlane_vtx_iy F C p iy ms) = Vtx ms @ vs \<and>
      Norm (AddPlane_vtx_iy F C p iy ms) = Norm ms @ ns \<and>
      TexUV (AddPlane_vtx_iy F C p iy ms) = TexUV ms @ ts \<and>
      Color (AddPlane_vtx_iy F C p iy ms) = Color ms @ cs \<and>
      Idx (AddPlane_vtx_iy F C p iy ms) = Idx ms \<and>
      len vs = 3 * (max 0 (sint (p_wsegs1 p)) * max 0 (sint (p_hsegs1 p) - sint iy)) \<and>
      len ns = 3 * (max 0 (sint (p_wsegs1 p)) * max 0 (sint (p_hsegs1 p) - sint iy)) \<and>
      len ts = 2 * (max 0 (sint (p_wsegs1 p)) * max 0 (sint (p_hsegs1 p) - sint iy)) \<and>
      len cs = (if IsNil C (p_clr p) then 0 else 4) *
               (max 0 (sint (p_wsegs1 p)) * max 0 (sint (p_hsegs1 p) - sint iy))"
proof (induction F C p iy ms rule: AddPlane_vtx_iy.induct)
  case (1 F C p iy ms)
  show ?case
  proof (cases "sint iy < sint (p_hsegs1 p)")
    case True
    note succ = sint_succ_below [OF True]
    let ?m = "AddPlane_vtx_ix F C p iy 0 ms"
    let ?r = "AddPlane_vtx_iy F C p (iy + 1) ?m"
    obtain vs ns ts cs where a: "Vtx ?m = Vtx ms @ vs" "Norm ?m = Norm ms @ ns"
      "TexUV ?m = TexUV ms @ ts" "Color ?m = Color ms @ cs" "Idx ?m = Idx ms"
      "len vs = 3 * max 0 (sint (p_wsegs1 p) - sint (0 :: int64))" "len ns = 3 * max 0 (sint (p_wsegs1 p) - sint (0 :: int64))"
      "len ts = 2 * max 0 (sint (p_wsegs1 p) - sint (0 :: int64))"
      "len cs = (if IsNil C (p_clr p) then 0 else 4) * max 0 (sint (p_wsegs1 p) - sint (0 :: int64))"
      using AddPlane_vtx_ix_appends[of F C p iy 0 ms] by blast
    obtain vs' ns' ts' cs' where b: "Vtx ?r = Vtx ?m @ vs'" "Norm ?r = Norm ?m @ ns'"
      "TexUV ?r = TexUV ?m @ ts'" "Color ?r = Color ?m @ cs'" "Idx ?r = Idx ?m"
      "len vs' = 3 * (max 0 (sint (p_wsegs1 p)) * max 0 (sint (p_hsegs1 p) - sint (iy + 1)))"
      "len ns' = 3 * (max 0 (sint (p_wsegs1 p)) * max 0 (sint (p_hsegs1 p) - sint (iy + 1)))"
      "len ts' = 2 * (max 0 (sint (p_wsegs1 p)) * max 0 (sint (p_hsegs1 p) - sint (iy + 1)))"
      "len cs' = (if IsNil C (p_clr p) then 0 else 4) *
                 (max 0 (sint (p_wsegs1 p)) * max 0 (sint (p_hsegs1 p) - sint (iy + 1)))"
      using 1[OF True] by blast
    have step: "AddPlane_vtx_iy F C p iy ms = ?r"
      using True by simp
    have rows: "max 0 (sint (p_hsegs1 p) - sint iy) = 1 + max 0 (sint (p_hsegs1 p) - sint (iy + 1))"
      using True by (simp add: succ)
    have "Vtx (AddPlane_vtx_iy F C p iy ms) = Vtx ms @ (vs @ vs')"
      "Norm (AddPlane_vtx_iy F C p iy ms) = Norm ms @ (ns @ ns')"
      "TexUV (AddPlane_vtx_iy F C p iy ms) = TexUV ms @ (ts @ ts')"
      "Color (AddPlane_vtx_iy F C p iy ms) = Color ms @ (cs @ cs')"
      "Idx (AddPlane_vtx_iy F C p iy ms) = Idx ms"
      using a b by (simp_all only: step append_assoc)
    moreover have "len (vs @ vs') = len vs + len vs'" "len (ns @ ns') = len ns + len ns'"
      "len (ts @ ts') = len ts + len ts'" "len (cs @ cs') = len cs + len cs'"
      by (simp_all add: len_def)
    then have "len (vs @ vs') = 3 * (max 0 (sint (p_wsegs1 p)) * max 0 (sint (p_hsegs1 p) - sint iy))"
      "len (ns @ ns') = 3 * (max 0 (sint (p_wsegs1 p)) * max 0 (sint (p_hsegs1 p) - sint iy))"
      "len (ts @ ts') = 2 * (max 0 (sint (p_wsegs1 p)) * max 0 (sint (p_hsegs1 p) - sint iy))"
      "len (cs @ cs') = (if IsNil C (p_clr p) then 0 else 4) *
                        (max 0 (sint (p_wsegs1 p)) * max 0 (sint (p_hsegs1 p) - sint iy))"
      using a(6-9) b(6-9) by (simp_all only: rows sint_0 diff_zero ring_distribs mult_1_right)
    ultimately show ?thesis by blast
  next
    case False
    then show ?thesis by (simp add: len_def)
  qed
qed

lemma AddPlane_idx_ix_appends:
  "\<exists>js. Idx (AddPlane_idx_ix p iy ix ms) = Idx ms @ js \<and>
      len js = 6 * max 0 (sint (p_wsegs p) - sint ix) \<and>
      Vtx (AddPlane_idx_ix p iy ix ms) = Vtx ms \<and>
      Norm (AddPlane_idx_ix p iy ix ms) = Norm ms \<and>
      TexUV (AddPlane_idx_ix p iy ix ms) = TexUV ms \<and>
      Color (AddPlane_idx_ix p iy ix ms) = Color ms"
proof (induction p iy ix ms rule: AddPlane_idx_ix.induct)
  case (1 p iy ix ms)
  show ?case
  proof (cases "sint ix < sint (p_wsegs p)")
    case True
    note succ = sint_succ_below [OF True]
    let ?m = "plane_cell p iy ix ms"
    let ?r = "AddPlane_idx_ix p iy (ix + 1) ?m"
    obtain js where a: "Idx ?m = Idx ms @ js" "length js = 6" "Vtx ?m = Vtx ms"
      "Norm ?m = Norm ms" "TexUV ?m = TexUV ms" "Color ?m = Color ms"
      by (simp add: plane_cell_def Let_def)
    obtain js' where b: "Idx ?r = Idx ?m @ js'" "len js' = 6 * max 0 (sint (p_wsegs p) - sint (ix + 1))"
      "Vtx ?r = Vtx ?m" "Norm ?r = Norm ?m" "TexUV ?r = TexUV ?m" "Color ?r = Color ?m"
      using 1[OF True] by blast
    have step: "AddPlane_idx_ix p iy ix ms = ?r"
      using True by simp
    have "Idx (AddPlane_idx_ix p iy ix ms) = Idx ms @ (js @ js')"
      "Vtx (AddPlane_idx_ix p iy ix ms) = Vtx ms" "Norm (AddPlane_idx_ix p iy ix ms) = Norm ms"
      "TexUV (AddPlane_idx_ix p iy ix ms) = TexUV ms"
      "Color (AddPlane_idx_ix p iy ix ms) = Color ms"
      using a b by (simp_all only: step append_assoc)
    moreover have "len (js @ js') = 6 * max 0 (sint (p_wsegs p) - sint ix)"
      using a(2) b(2) True by (auto simp: len_def succ)
    ultimately show ?thesis by blast
  next
    case False
    then show ?thesis by (simp add: len_def)
  qed
qed

lemma AddPlane_idx_iy_appends:
  "\<exists>js. Idx (AddPlane_idx_iy p iy ms) = Idx ms @ js \<and>
      len js = 6 * (max 0 (sint (p_wsegs p)) * max 0 (sint (p_hsegs p) - sint iy)) \<and>
      Vtx (AddPlane_idx_iy p iy ms) = Vtx ms \<and>
      Norm (AddPlane_idx_iy p iy ms) = Norm ms \<and>
      TexUV (AddPlane_idx_iy p iy ms) = TexUV ms \<and>
      Color (AddPlane_idx_iy p iy ms) = Color ms"
proof (induction p iy ms rule: AddPlane_idx_iy.induct)
  case (1 p iy ms)
  show ?case
  proof (cases "sint iy < sint (p_hsegs p)")
    case True
    note succ = sint_succ_below [OF True]
    let ?m = "AddPlane_idx_ix p iy 0 ms"
    let ?r = "AddPlane_idx_iy p (iy + 1) ?m"
    obtain js where a: "Idx ?m = Idx ms @ js" "len js = 6 * max 0 (sint (p_wsegs p) - sint (0 :: int64))"
      "Vtx ?m = Vtx ms" "Norm ?m = Norm ms" "TexUV ?m = TexUV ms" "Color ?m = Color ms"
      using AddPlane_idx_ix_appends[of p iy 0 ms] by blast
    obtain js' where b: "Idx ?r = Idx ?m @ js'"
      "len js' = 6 * (max 0 (sint (p_wsegs p)) * max 0 (sint (p_hsegs p) - sint (iy + 1)))"
      "Vtx ?r = Vtx ?m" "Norm ?r = Norm ?m" "TexUV ?r = TexUV ?m" "Color ?r = Color ?m"
      using 1[OF True] by blast
    have step: "AddPlane_idx_iy p iy ms = ?r"
      using True by simp
    have rows: "max 0 (sint (p_hsegs p) - sint iy) = 1 + max 0 (sint (p_hsegs p) - sint (iy + 1))"
      using True by (simp add: succ)
    have "Idx (AddPlane_idx_iy p iy ms) = Idx ms @ (js @ js')"
      "Vtx (AddPlane_idx_iy p iy ms) = Vtx ms" "Norm (AddPlane_idx_iy p iy ms) = Norm ms"
      "TexUV (AddPlane_idx_iy p iy ms) = TexUV ms" "Color (AddPlane_idx_iy p iy ms) = Color ms"
      using a b by (simp_all only: step append_assoc)
    moreover have "len (js @ js') = len js + len js'"
      by (simp add: len_def)
    then have "len (js @ js') = 6 * (max 0 (sint (p_wsegs p)) * max 0 (sint (p_hsegs p) - sint iy))"
      using a(2) b(2) by (simp only: rows sint_0 diff_zero ring_distribs mult_1_right)
    ultimately show ?thesis by blast
  next
    case False
    then show ?thesis by (simp add: len_def)
  qed
qed



text \<open>
  As long as the grid count is below \<open>2 ^ 63\<close>, no sum and no product of
  \<open>PlaneSize\<close> and of \<open>AddPlane\<close> wraps around.
\<close>

lemma sint_MaxInt_1: "sint (MaxInt a 1) = max (sint a) 1"
  by (simp add: MaxInt_def max_def)

lemma plane_counts_fit:
  fixes w h :: int
  assumes "(max w 1 + 1) * (max h 1 + 1) < 2 ^ 63"
  shows "max w 1 + 1 < 2 ^ 63" and "max h 1 + 1 < 2 ^ 63"
proof -
  let ?w = "max w 1 + 1" and ?h = "max h 1 + 1"
  have w2: "2 \<le> ?w" and h2: "2 \<le> ?h"
    by simp_all
  have "?w * 1 \<le> ?w * ?h"
    using w2 h2 by (intro mult_left_mono) simp_all
  then show "?w < 2 ^ 63"
    using assms by simp
  have "1 * ?h \<le> ?w * ?h"
    using w2 h2 by (intro mult_right_mono) simp_all
  then show "?h < 2 ^ 63"
    using assms by simp
qed

lemma sint_succ_MaxInt:
  fixes a :: int64
  assumes "max (sint a) 1 + 1 < 2 ^ 63"
  shows "sint (MaxInt a 1 + 1) = max (sint a) 1 + 1"
proof -
  have "- (2 ^ 63) \<le> max (sint a) 1 + 1"
    by (rule order_trans [of _ 0]) simp_all
  then show ?thesis
    using assms by (simp add: sint_word_ariths sint_MaxInt_1 signed_take_bit_int_eq_self)
qed

lemma sint_PlaneSize:
  assumes "(max (sint wsegs) 1 + 1) * (max (sint hsegs) 1 + 1) < 2 ^ 63"
  shows "sint (PlaneSize wsegs hsegs) = (max (sint wsegs) 1 + 1) * (max (sint hsegs) 1 + 1)"
proof -
  let ?w = "max (sint wsegs) 1 + 1" and ?h = "max (sint hsegs) 1 + 1"
  note fit = plane_counts_fit [OF assms]
  have "0 \<le> ?w * ?h"
    by simp
  then have low: "- (2 ^ 63) \<le> ?w * ?h"
    by (rule order_trans [rotated]) simp
  have "sint (PlaneSize wsegs hsegs) =
      signed_take_bit 63 (sint (MaxInt wsegs 1 + 1) * sint (MaxInt hsegs 1 + 1))"
    by (simp add: PlaneSize_def Let_def sint_word_ariths)
  also have "\<dots> = signed_take_bit 63 (?w * ?h)"
    by (simp only: sint_succ_MaxInt [OF fit(1)] sint_succ_MaxInt [OF fit(2)])
  also have "\<dots> = ?w * ?h"
    using low assms by (rule signed_take_bit_int_eq_self)
  finally show ?thesis .
qed

text \<open>
  C7, as the claim states it, ranges over all segment counts. \<open>PlaneSize\<close> computes
  in \<open>int\<close>: for the largest \<open>int\<close> and 2 the sum \<open>wsegs + 1\<close> wraps around and
  the result is \<open>- 2 ^ 63\<close>, not \<open>2 ^ 63 * 3\<close>.
\<close>

theorem PlaneSize_wraps_counterexample:
  "sint (PlaneSize 9223372036854775807 2) \<noteq>
     (max (sint (9223372036854775807 :: int64)) 1 + 1) * (max (sint (2 :: int64)) 1 + 1)"
  by (simp add: PlaneSize_def MaxInt_def)

text \<open>
  C7, amended. For all segment counts whose grid count
  \<open>(max(wsegs,1)+1) * (max(hsegs,1)+1)\<close> is below \<open>2 ^ 63\<close>, \<open>PlaneSize(wsegs, hsegs)\<close>
  is that count, and \<open>AddPlane\<close> appends exactly that many vertices, normals (three
  floats each) and texcoords (two floats each), and exactly
  \<open>6 * max(wsegs,1) * max(hsegs,1)\<close> index entries, to the arrays the mesh already
  holds.
\<close>

theorem AddPlane_appends_PlaneSize:
  assumes "(max (sint wsegs) 1 + 1) * (max (sint hsegs) 1 + 1) < 2 ^ 63"
  shows "sint (PlaneSize wsegs hsegs) = (max (sint wsegs) 1 + 1) * (max (sint hsegs) 1 + 1) \<and>
   (\<exists>vs ns ts js.
      Vtx (AddPlane F C waxis haxis wdir hdir width height woff hoff zoff wsegs hsegs clr ms)
        = Vtx ms @ vs \<and> len vs = 3 * sint (PlaneSize wsegs hsegs) \<and>
      Norm (AddPlane F C waxis haxis wdir hdir width height woff hoff zoff wsegs hsegs clr ms)
        = Norm ms @ ns \<and> len ns = 3 * sint (PlaneSize wsegs hsegs) \<and>
      TexUV (AddPlane F C waxis haxis wdir hdir width height woff hoff zoff wsegs hsegs clr ms)
        = TexUV ms @ ts \<and> len ts = 2 * sint (PlaneSize wsegs hsegs) \<and>
      Idx (AddPlane F C waxis haxis wdir hdir width height woff hoff zoff wsegs hsegs clr ms)
        = Idx ms @ js \<and> len js = 6 * max (sint wsegs) 1 * max (sint hsegs) 1)"
proof -
  define p where
    "p = AddPlane_locals F waxis haxis wdir hdir width height woff hoff zoff wsegs hsegs clr ms"
  let ?m = "AddPlane_vtx_iy F C p 0 ms"
  let ?r = "AddPlane_idx_iy p 0 ?m"
  note fit = plane_counts_fit [OF assms]
  have segs: "sint (p_wsegs p) = max (sint wsegs) 1" "sint (p_hsegs p) = max (sint hsegs) 1"
    by (simp_all add: p_def AddPlane_locals_def Let_def sint_MaxInt_1)
  have segs1: "sint (p_wsegs1 p) = max (sint wsegs) 1 + 1"
    "sint (p_hsegs1 p) = max (sint hsegs) 1 + 1"
    using sint_succ_MaxInt [OF fit(1)] sint_succ_MaxInt [OF fit(2)]
    by (simp_all add: p_def AddPlane_locals_def Let_def)
  note size = sint_PlaneSize [OF assms]
  have res: "AddPlane F C waxis haxis wdir hdir width height woff hoff zoff wsegs hsegs clr ms = ?r"
    by (simp add: AddPlane_def Let_def p_def)
  obtain vs ns ts where a: "Vtx ?m = Vtx ms @ vs" "Norm ?m = Norm ms @ ns"
    "TexUV ?m = TexUV ms @ ts" "Idx ?m = Idx ms"
    "len vs = 3 * (max 0 (sint (p_wsegs1 p)) * max 0 (sint (p_hsegs1 p) - sint (0 :: int64)))"
    "len ns = 3 * (max 0 (sint (p_wsegs1 p)) * max 0 (sint (p_hsegs1 p) - sint (0 :: int64)))"
    "len ts = 2 * (max 0 (sint (p_wsegs1 p)) * max 0 (sint (p_hsegs1 p) - sint (0 :: int64)))"
    using AddPlane_vtx_iy_appends[of F C p 0 ms] by blast
  obtain js where b: "Idx ?r = Idx ?m @ js"
    "len js = 6 * (max 0 (sint (p_wsegs p)) * max 0 (sint (p_hsegs p) - sint (0 :: int64)))"
    "Vtx ?r = Vtx ?m" "Norm ?r = Norm ?m" "TexUV ?r = TexUV ?m"
    using AddPlane_idx_iy_appends[of p 0 ?m] by blast
  have grid: "max 0 (sint (p_wsegs1 p)) * max 0 (sint (p_hsegs1 p) - sint (0 :: int64)) =
      sint (PlaneSize wsegs hsegs)"
    by (simp add: segs1 size)
  have cells: "6 * (max 0 (sint (p_wsegs p)) * max 0 (sint (p_hsegs p) - sint (0 :: int64))) =
      6 * max (sint wsegs) 1 * max (sint hsegs) 1"
    by (simp add: segs)
  have "Vtx ?r = Vtx ms @ vs" "Norm ?r = Norm ms @ ns" "TexUV ?r = TexUV ms @ ts"
    "Idx ?r = Idx ms @ js"
    using a(1-4) b(1,3-5) by simp_all
  moreover have "len vs = 3 * sint (PlaneSize wsegs hsegs)"
    "len ns = 3 * sint (PlaneSize wsegs hsegs)"
    "len ts = 2 * sint (PlaneSize wsegs hsegs)"
    "len js = 6 * max (sint wsegs) 1 * max (sint hsegs) 1"
    using a(5-7) b(2) by (simp_all only: grid cells)
  ultimately show ?thesis
    unfolding res using size by blast
qed

theorem AddPlane_appends_PlaneSize_witness:
  "(max (sint (2 :: int64)) 1 + 1) * (max (sint (1 :: int64)) 1 + 1) < 2 ^ 63 \<and>
   sint (PlaneSize 2 1) = 6 \<and>
   (\<exists>vs ns ts js.
      Vtx (AddPlane \<lparr>f32_of_int = word_of_int, f32_add = (+), f32_sub = (-), f32_mul = (*),
          f32_div = (div), f32_gt_zero = (\<lambda>x. 0 < sint x), f32_to_int = sint\<rparr>
        \<lparr>IsNil = (\<lambda>c. c = (0 :: nat)), ColorToVec4f = (\<lambda>c. Vec4 0 0 0 0)\<rparr>
        X Y 1 1 2 1 0 0 0 2 1 0
        \<lparr>Nm = ''m'', Dynamic = False, Trans = False, Vtx = [], Norm = [], TexUV = [],
          Idx = [], Color = [], BBox = (), Buff = None\<rparr>) = vs \<and> len vs = 18 \<and>
      Norm (AddPlane \<lparr>f32_of_int = word_of_int, f32_add = (+), f32_sub = (-), f32_mul = (*),
          f32_div = (div), f32_gt_zero = (\<lambda>x. 0 < sint x), f32_to_int = sint\<rparr>
        \<lparr>IsNil = (\<lambda>c. c = (0 :: nat)), ColorToVec4f = (\<lambda>c. Vec4 0 0 0 0)\<rparr>
        X Y 1 1 2 1 0 0 0 2 1 0
        \<lparr>Nm = ''m'', Dynamic = False, Trans = False, Vtx = [], Norm = [], TexUV = [],
          Idx = [], Color = [], BBox = (), Buff = None\<rparr>) = ns \<and> len ns = 18 \<and>
      TexUV (AddPlane \<lparr>f32_of_int = word_of_int, f32_add = (+), f32_sub = (-), f32_mul = (*),
          f32_div = (div), f32_gt_zero = (\<lambda>x. 0 < sint x), f32_to_int = sint\<rparr>
        \<lparr>IsNil = (\<lambda>c. c = (0 :: nat)), ColorToVec4f = (\<lambda>c. Vec4 0 0 0 0)\<rparr>
        X Y 1 1 2 1 0 0 0 2 1 0
        \<lparr>Nm = ''m'', Dynamic = False, Trans = False, Vtx = [], Norm = [], TexUV = [],
          Idx = [], Color = [], BBox = (), Buff = None\<rparr>) = ts \<and> len ts = 12 \<and>
      Idx (AddPlane \<lparr>f32_of_int = word_of_int, f32_add = (+), f32_sub = (-), f32_mul = (*),
          f32_div = (div), f32_gt_zero = (\<lambda>x. 0 < sint x), f32_to_int = sint\<rparr>
        \<lparr>IsNil = (\<lambda>c. c = (0 :: nat)), ColorToVec4f = (\<lambda>c. Vec4 0 0 0 0)\<rparr>
        X Y 1 1 2 1 0 0 0 2 1 0
        \<lparr>Nm = ''m'', Dynamic = False, Trans = False, Vtx = [], Norm = [], TexUV = [],
          Idx = [], Color = [], BBox = (), Buff = None\<rparr>) = js \<and> len js = 12)"
proof -
  have h: "(max (sint (2 :: int64)) 1 + 1) * (max (sint (1 :: int64)) 1 + 1) < 2 ^ 63"
    by simp
  show ?thesis
    using h AddPlane_appends_PlaneSize [OF h, of
        "\<lparr>f32_of_int = word_of_int, f32_add = (+), f32_sub = (-), f32_mul = (*),
          f32_div = (div), f32_gt_zero = (\<lambda>x. 0 < sint x), f32_to_int = sint\<rparr>"
        "\<lparr>IsNil = (\<lambda>c. c = (0 :: nat)), ColorToVec4f = (\<lambda>c. Vec4 0 0 0 0)\<rparr>"
        X Y 1 1 2 1 0 0 0 0
        "\<lparr>Nm = ''m'', Dynamic = False, Trans = False, Vtx = [], Norm = [], TexUV = [],
          Idx = [], Color = [], BBox = (), Buff = None\<rparr>"]
    by auto
qed

text \<open>
  A plane of two by one segments on an empty mesh: six vertices, and two cells of two
  triangles each.
\<close>

lemma AddPlane_two_by_one:
  "len (Vtx (AddPlane \<lparr>f32_of_int = word_of_int, f32_add = (+), f32_sub = (-), f32_mul = (*),
        f32_div = (div), f32_gt_zero = (\<lambda>x. 0 < sint x), f32_to_int = sint\<rparr>
        \<lparr>IsNil = (\<lambda>c. c = (0 :: nat)), ColorToVec4f = (\<lambda>c. Vec4 0 0 0 0)\<rparr>
        X Y 1 1 2 1 0 0 0 2 1 0
        \<lparr>Nm = ''m'', Dynamic = False, Trans = False, Vtx = [], Norm = [], TexUV = [],
          Idx = [], Color = [], BBox = (), Buff = None\<rparr>)) = 18 \<and>
   Idx (AddPlane \<lparr>f32_of_int = word_of_int, f32_add = (+), f32_sub = (-), f32_mul = (*),
        f32_div = (div), f32_gt_zero = (\<lambda>x. 0 < sint x), f32_to_int = sint\<rparr>
        \<lparr>IsNil = (\<lambda>c. c = (0 :: nat)), ColorToVec4f = (\<lambda>c. Vec4 0 0 0 0)\<rparr>
        X Y 1 1 2 1 0 0 0 2 1 0
        \<lparr>Nm = ''m'', Dynamic = False, Trans = False, Vtx = [], Norm = [], TexUV = [],
          Idx = [], Color = [], BBox = (), Buff = None\<rparr>)
     = [0, 3, 1, 3, 4, 1, 1, 4, 2, 4, 5, 2]"
  by (simp add: AddPlane_def AddPlane_locals_def MaxInt_def plane_axis_def plane_vertex_def
      plane_cell_def len_def Let_def)

section \<open>Activating a mesh that does not validate\<close>

lemma MakeVectors_invalid:
  "Validate ms = Some err \<Longrightarrow> MakeVectors ms = (Some err, ms)"
  by (simp add: MakeVectors_def)

lemma MakeVectors_valid_builds:
  "Validate ms = None \<Longrightarrow> fst (MakeVectors ms) = None \<and> Buff (snd (MakeVectors ms)) \<noteq> None"
  by (simp add: MakeVectors_def Let_def)

lemma Activate_valid:
  "Validate ms = None \<Longrightarrow> \<exists>ms'. Activate ms = Inr ms'"
  by (cases "Buff ms") (simp_all add: Activate_def MakeVectors_def Let_def)

lemma Activate_invalid_never_built:
  "Validate ms = Some err \<Longrightarrow> Buff ms = None \<Longrightarrow> Activate ms = Inl NilDereference"
  by (simp add: Activate_def MakeVectors_invalid)

text \<open>
  C8. A mesh without vertices that was never built: \<open>Validate\<close> reports it and
  \<open>MakeVectors\<close> returns that error without creating \<open>Buff\<close>, so the mesh is not drawn;
  but \<open>Activate\<close> ignores the error and calls a method on the \<open>nil\<close> \<open>Buff\<close>, which
  panics.
\<close>

theorem Activate_empty_mesh_panics:
  "Validate \<lparr>Nm = ''m'', Dynamic = False, Trans = False, Vtx = [], Norm = [], TexUV = [],
      Idx = [], Color = [], BBox = (), Buff = None\<rparr> = Some NoVerticies \<and>
   Activate \<lparr>Nm = ''m'', Dynamic = False, Trans = False, Vtx = [], Norm = [], TexUV = [],
      Idx = [], Color = [], BBox = (), Buff = None\<rparr> = Inl NilDereference"
  by (simp add: Activate_def MakeVectors_def Validate_def len_def)

section \<open>Transparency of a mesh without colors\<close>

text \<open>
  C10. A mesh that has no per-vertex colors (\<open>len(Color) == 0\<close>) is never reported
  transparent, whatever its \<open>Trans\<close> flag says; whenever \<open>IsTransparent\<close> answers true,
  per-vertex colors are present.
\<close>

theorem IsTransparent_needs_color:
  "(len (Color ms) = 0 \<longrightarrow> IsTransparent ms = False) \<and>
   (IsTransparent ms \<longrightarrow> HasColor ms)"
  by (simp add: IsTransparent_def HasColor_def)

theorem IsTransparent_needs_color_witness:
  "len (Color \<lparr>Nm = ''m'', Dynamic = False, Trans = True, Vtx = [0, 0, 0],
       Norm = [0, 0, 0], TexUV = [0, 0], Idx = [], Color = [], BBox = (), Buff = None\<rparr>) = 0
   \<and> IsTransparent \<lparr>Nm = ''m'', Dynamic = False, Trans = True, Vtx = [0, 0, 0],
       Norm = [0, 0, 0], TexUV = [0, 0], Idx = [], Color = [], BBox = (), Buff = None\<rparr> = False
   \<and> IsTransparent \<lparr>Nm = ''m'', Dynamic = False, Trans = True, Vtx = [0, 0, 0],
       Norm = [0, 0, 0], TexUV = [0, 0], Idx = [], Color = [1, 1, 1, 1], BBox = (), Buff = None\<rparr>
   \<and> HasColor \<lparr>Nm = ''m'', Dynamic = False, Trans = True, Vtx = [0, 0, 0],
       Norm = [0, 0, 0], TexUV = [0, 0], Idx = [], Color = [1, 1, 1, 1], BBox = (), Buff = None\<rparr>"
  using IsTransparent_needs_color
    [of "\<lparr>Nm = ''m'', Dynamic = False, Trans = True, Vtx = [0, 0, 0],
       Norm = [0, 0, 0], TexUV = [0, 0], Idx = [], Color = [], BBox = (), Buff = None\<rparr>"]
    IsTransparent_needs_color
    [of "\<lparr>Nm = ''m'', Dynamic = False, Trans = True, Vtx = [0, 0, 0],
       Norm = [0, 0, 0], TexUV = [0, 0], Idx = [], Color = [1, 1, 1, 1], BBox = (), Buff = None\<rparr>"]
  by (simp add: len_def IsTransparent_def HasColor_def)

section \<open>The move pass\<close>

text \<open>
  The move pass rewrites the position of every node of the subtree from that node's
  layout-time baseline \<open>AllocPosOrig\<close> and leaves every other layout field as it was.
\<close>

lemma Kids_ComputeBBox2D: "Kids (ComputeBBox2D parBBox delta g) = Kids g"
  by (cases g) simp_all

lemma Kids_upd_fields: "Kids (upd_fields f g) = Kids g"
  by (cases g) simp_all

lemma Kids_Move2DBase: "Kids (Move2DBase F delta parBBox g) = Kids g"
  by (simp add: Move2DBase_def Kids_ComputeBBox2D Kids_upd_fields)

lemma ComputeBBox2DBase_LayData: "LayData (ComputeBBox2DBase parBBox delta w) = LayData w"
  by (simp add: ComputeBBox2DBase_def Let_def)

lemma ComputeBBox2D_LayData:
  "map LayData (subtree (ComputeBBox2D parBBox delta g)) = map LayData (subtree g)"
  by (induction g) (simp_all add: ComputeBBox2DBase_LayData)

lemma ComputeBBox2D_fields_LayData:
  "LayData (AsWidget (ComputeBBox2D parBBox delta g)) = LayData (AsWidget g)"
  by (cases g) (simp_all add: ComputeBBox2DBase_LayData)

lemma Move2DBase_WidgetBase:
  "Move2DBase F delta parBBox g = WidgetBase w kids \<Longrightarrow>
   \<exists>w0. g = WidgetBase w0 kids \<and>
     LayData w = (LayData w0)\<lparr>AllocPos :=
        Vec2D_Add F (AllocPosOrig (LayData w0)) (NewVec2DFmPoint F delta)\<rparr>"
  by (cases g) (auto simp: Move2DBase_def ComputeBBox2DBase_def Let_def)

lemma Move2DBase_PartsWidgetBase:
  "Move2DBase F delta parBBox g = PartsWidgetBase w parts kids \<Longrightarrow>
   \<exists>w0 parts0. g = PartsWidgetBase w0 parts0 kids \<and>
     parts = ComputeBBox2D parBBox delta parts0 \<and>
     LayData w = (LayData w0)\<lparr>AllocPos :=
        Vec2D_Add F (AllocPosOrig (LayData w0)) (NewVec2DFmPoint F delta)\<rparr>"
  by (cases g) (auto simp: Move2DBase_def ComputeBBox2DBase_def Let_def)

lemma Move2D_subtree:
  "map LayData (subtree (Move2D F delta parBBox g)) =
   map (\<lambda>w. (LayData w)\<lparr>AllocPos :=
          Vec2D_Add F (AllocPosOrig (LayData w)) (NewVec2DFmPoint F delta)\<rparr>) (subtree g)"
proof (induction F delta parBBox g rule: Move2D.induct)
  case (1 F delta parBBox g)
  show ?case
  proof (cases "Move2DBase F delta parBBox g")
    case (WidgetBase w kids)
    then obtain w0 where g: "g = WidgetBase w0 kids"
      and w: "LayData w = (LayData w0)\<lparr>AllocPos :=
        Vec2D_Add F (AllocPosOrig (LayData w0)) (NewVec2DFmPoint F delta)\<rparr>"
      using Move2DBase_WidgetBase by blast
    have kids: "k \<in> set kids \<Longrightarrow>
        map LayData (subtree (Move2D F delta (ChildrenBBox2DWidget F w) k)) =
        map (\<lambda>w. (LayData w)\<lparr>AllocPos :=
          Vec2D_Add F (AllocPosOrig (LayData w)) (NewVec2DFmPoint F delta)\<rparr>) (subtree k)" for k
      using 1(1)[OF WidgetBase] by simp
    have res: "Move2D F delta parBBox g =
        WidgetBase w (map (Move2D F delta (ChildrenBBox2DWidget F w)) kids)"
      by (subst Move2D.simps) (simp add: WidgetBase)
    have "map LayData (subtree (Move2D F delta parBBox g)) =
        LayData w # concat (map (\<lambda>k. map LayData
          (subtree (Move2D F delta (ChildrenBBox2DWidget F w) k))) kids)"
      by (simp add: res map_concat comp_def)
    also have "\<dots> = (LayData w0)\<lparr>AllocPos :=
          Vec2D_Add F (AllocPosOrig (LayData w0)) (NewVec2DFmPoint F delta)\<rparr> #
        concat (map (\<lambda>k. map (\<lambda>w. (LayData w)\<lparr>AllocPos :=
          Vec2D_Add F (AllocPosOrig (LayData w)) (NewVec2DFmPoint F delta)\<rparr>) (subtree k)) kids)"
      using w kids by (simp cong: map_cong)
    also have "\<dots> = map (\<lambda>w. (LayData w)\<lparr>AllocPos :=
          Vec2D_Add F (AllocPosOrig (LayData w)) (NewVec2DFmPoint F delta)\<rparr>) (subtree g)"
      by (simp add: g map_concat comp_def)
    finally show ?thesis .
  next
    case (PartsWidgetBase w parts kids)
    then obtain w0 parts0 where g: "g = PartsWidgetBase w0 parts0 kids"
      and p: "parts = ComputeBBox2D parBBox delta parts0"
      and w: "LayData w = (LayData w0)\<lparr>AllocPos :=
        Vec2D_Add F (AllocPosOrig (LayData w0)) (NewVec2DFmPoint F delta)\<rparr>"
      using Move2DBase_PartsWidgetBase by blast
    have parts: "map LayData (subtree (Move2D F delta parBBox parts)) =
        map (\<lambda>w. (LayData w)\<lparr>AllocPos :=
          Vec2D_Add F (AllocPosOrig (LayData w)) (NewVec2DFmPoint F delta)\<rparr>) (subtree parts0)"
    proof -
      have "map LayData (subtree (Move2D F delta parBBox parts)) =
        map (\<lambda>w. (LayData w)\<lparr>AllocPos :=
          Vec2D_Add F (AllocPosOrig (LayData w)) (NewVec2DFmPoint F delta)\<rparr>) (subtree parts)"
        using 1(2)[OF PartsWidgetBase] .
      also have "\<dots> = map ((\<lambda>l. l\<lparr>AllocPos :=
          Vec2D_Add F (AllocPosOrig l) (NewVec2DFmPoint F delta)\<rparr>)) (map LayData (subtree parts))"
        by (simp add: comp_def)
      also have "map LayData (subtree parts) = map LayData (subtree parts0)"
        unfolding p by (rule ComputeBBox2D_LayData)
      finally show ?thesis by (simp add: comp_def)
    qed
    have kids: "k \<in> set kids \<Longrightarrow>
        map LayData (subtree (Move2D F delta (ChildrenBBox2DWidget F w) k)) =
        map (\<lambda>w. (LayData w)\<lparr>AllocPos :=
          Vec2D_Add F (AllocPosOrig (LayData w)) (NewVec2DFmPoint F delta)\<rparr>) (subtree k)" for k
      using 1(3)[OF PartsWidgetBase refl] by simp
    have res: "Move2D F delta parBBox g =
        PartsWidgetBase w (Move2D F delta parBBox parts)
          (map (Move2D F delta (ChildrenBBox2DWidget F w)) kids)"
      by (subst Move2D.simps) (simp add: PartsWidgetBase Let_def)
    have "map LayData (subtree (Move2D F delta parBBox g)) =
        LayData w # map LayData (subtree (Move2D F delta parBBox parts)) @
        concat (map (\<lambda>k. map LayData
          (subtree (Move2D F delta (ChildrenBBox2DWidget F w) k))) kids)"
      by (simp add: res map_concat comp_def)
    also have "\<dots> = (LayData w0)\<lparr>AllocPos :=
          Vec2D_Add F (AllocPosOrig (LayData w0)) (NewVec2DFmPoint F delta)\<rparr> #
        map (\<lambda>w. (LayData w)\<lparr>AllocPos :=
          Vec2D_Add F (AllocPosOrig (LayData w)) (NewVec2DFmPoint F delta)\<rparr>) (subtree parts0) @
        concat (map (\<lambda>k. map (\<lambda>w. (LayData w)\<lparr>AllocPos :=
          Vec2D_Add F (AllocPosOrig (LayData w)) (NewVec2DFmPoint F delta)\<rparr>) (subtree k)) kids)"
      using w parts kids by (simp cong: map_cong)
    also have "\<dots> = map (\<lambda>w. (LayData w)\<lparr>AllocPos :=
          Vec2D_Add F (AllocPosOrig (LayData w)) (NewVec2DFmPoint F delta)\<rparr>) (subtree g)"
      by (simp add: g map_concat comp_def)
    finally show ?thesis .
  qed
qed


lemma subtree_fields: "\<exists>rest. subtree g = AsWidget g # rest"
  by (cases g) simp_all

lemma Move2D_fields_LayData:
  "LayData (AsWidget (Move2D F delta parBBox g)) =
   (LayData (AsWidget g))\<lparr>AllocPos :=
      Vec2D_Add F (AllocPosOrig (LayData (AsWidget g))) (NewVec2DFmPoint F delta)\<rparr>"
proof -
  obtain r where r: "subtree g = AsWidget g # r"
    using subtree_fields by blast
  obtain r' where r': "subtree (Move2D F delta parBBox g) = AsWidget (Move2D F delta parBBox g) # r'"
    using subtree_fields by blast
  show ?thesis
    using Move2D_subtree[of F delta parBBox g] unfolding r r' by simp
qed

lemma Move2D_Kids:
  "\<exists>cbb. Kids (Move2D F delta parBBox g) = map (Move2D F delta cbb) (Kids g)"
proof (cases "Move2DBase F delta parBBox g")
  case (WidgetBase w kids)
  then have "Kids g = kids"
    using Kids_Move2DBase[of F delta parBBox g] by simp
  moreover have "Move2D F delta parBBox g =
      WidgetBase w (map (Move2D F delta (ChildrenBBox2DWidget F w)) kids)"
    by (subst Move2D.simps) (simp add: WidgetBase)
  ultimately show ?thesis by auto
next
  case (PartsWidgetBase w parts kids)
  then have "Kids g = kids"
    using Kids_Move2DBase[of F delta parBBox g] by simp
  moreover have "Move2D F delta parBBox g =
      PartsWidgetBase w (Move2D F delta parBBox parts)
        (map (Move2D F delta (ChildrenBBox2DWidget F w)) kids)"
    by (subst Move2D.simps) (simp add: PartsWidgetBase Let_def)
  ultimately show ?thesis by auto
qed

text \<open>
  C3, as the claim states it, has every child's position shift by exactly the delta.
  \<open>Move2DBase\<close> never reads the position a node has: it counts from the baseline. A
  child that a move by \<open>(5, 7)\<close> has already put at \<open>(17, 19)\<close>, its baseline being
  \<open>(12, 12)\<close>, stands at \<open>(17, 19)\<close> again after another move by \<open>(5, 7)\<close>, and not
  at \<open>(22, 26)\<close>. Float32 addition stands in as addition of the bit patterns here.
\<close>

theorem Move2D_child_off_baseline_counterexample:
  "map (\<lambda>k. AllocPos (LayData (AsWidget k)))
     (Kids (Move2D \<lparr>f32_of_int = word_of_int, f32_add = (+), f32_sub = (-), f32_mul = (*),
        f32_div = (div), f32_gt_zero = (\<lambda>x. 0 < sint x), f32_to_int = sint\<rparr>
        \<lparr>Pt_X = 5, Pt_Y = 7\<rparr>
        \<lparr>Rect_Min = \<lparr>Pt_X = 0, Pt_Y = 0\<rparr>, Rect_Max = \<lparr>Pt_X = 100, Pt_Y = 100\<rparr>\<rparr>
        (WidgetBase
          \<lparr>Flag = {}, Viewport = None, BBox2D = ZR, ObjBBox = ZR, VpBBox = ZR, WinBBox = ZR,
            LayData = \<lparr>Size_Pref = \<lparr>V_X = 0, V_Y = 0\<rparr>, AllocSize = \<lparr>V_X = 30, V_Y = 20\<rparr>,
              AllocPos = \<lparr>V_X = 15, V_Y = 17\<rparr>, AllocPosRel = \<lparr>V_X = 0, V_Y = 0\<rparr>,
              AllocPosOrig = \<lparr>V_X = 10, V_Y = 10\<rparr>\<rparr>,
            Sty_BoxSpace = 2, EventBindings = []\<rparr>
          [WidgetBase
            \<lparr>Flag = {}, Viewport = None, BBox2D = ZR, ObjBBox = ZR, VpBBox = ZR, WinBBox = ZR,
              LayData = \<lparr>Size_Pref = \<lparr>V_X = 0, V_Y = 0\<rparr>, AllocSize = \<lparr>V_X = 8, V_Y = 9\<rparr>,
                AllocPos = \<lparr>V_X = 17, V_Y = 19\<rparr>, AllocPosRel = \<lparr>V_X = 2, V_Y = 2\<rparr>,
                AllocPosOrig = \<lparr>V_X = 12, V_Y = 12\<rparr>\<rparr>,
              Sty_BoxSpace = 0, EventBindings = []\<rparr> []]))) \<noteq>
   map (\<lambda>k. Vec2D_Add \<lparr>f32_of_int = word_of_int, f32_add = (+), f32_sub = (-), f32_mul = (*),
          f32_div = (div), f32_gt_zero = (\<lambda>x. 0 < sint x), f32_to_int = sint\<rparr>
          (AllocPos (LayData (AsWidget k)))
          (NewVec2DFmPoint \<lparr>f32_of_int = word_of_int, f32_add = (+), f32_sub = (-),
            f32_mul = (*), f32_div = (div), f32_gt_zero = (\<lambda>x. 0 < sint x), f32_to_int = sint\<rparr>
            \<lparr>Pt_X = 5, Pt_Y = 7\<rparr>))
     (Kids (WidgetBase
          \<lparr>Flag = {}, Viewport = None, BBox2D = ZR, ObjBBox = ZR, VpBBox = ZR, WinBBox = ZR,
            LayData = \<lparr>Size_Pref = \<lparr>V_X = 0, V_Y = 0\<rparr>, AllocSize = \<lparr>V_X = 30, V_Y = 20\<rparr>,
              AllocPos = \<lparr>V_X = 15, V_Y = 17\<rparr>, AllocPosRel = \<lparr>V_X = 0, V_Y = 0\<rparr>,
              AllocPosOrig = \<lparr>V_X = 10, V_Y = 10\<rparr>\<rparr>,
            Sty_BoxSpace = 2, EventBindings = []\<rparr>
          [WidgetBase
            \<lparr>Flag = {}, Viewport = None, BBox2D = ZR, ObjBBox = ZR, VpBBox = ZR, WinBBox = ZR,
              LayData = \<lparr>Size_Pref = \<lparr>V_X = 0, V_Y = 0\<rparr>, AllocSize = \<lparr>V_X = 8, V_Y = 9\<rparr>,
                AllocPos = \<lparr>V_X = 17, V_Y = 19\<rparr>, AllocPosRel = \<lparr>V_X = 2, V_Y = 2\<rparr>,
                AllocPosOrig = \<lparr>V_X = 12, V_Y = 12\<rparr>\<rparr>,
              Sty_BoxSpace = 0, EventBindings = []\<rparr> []]))"
  by (simp add: Move2D.simps Move2DBase_def ComputeBBox2DBase_def Vec2D_Add_def
      NewVec2DFmPoint_def Let_def)

text \<open>
  C3, amended. After \<open>Move2D(delta, parBBox)\<close> the node's \<open>AllocPos\<close> is its
  \<open>AllocPosOrig\<close> plus the delta (the float32 sum of the source); every child's
  \<open>AllocPos\<close> is that child's own \<open>AllocPosOrig\<close> plus the same delta; and
  \<open>AllocSize\<close> (as well as the baseline itself) is unchanged for the node and every
  node of its subtree, parts included.
\<close>

theorem Move2D_moves_positions_only:
  "AllocPos (LayData (AsWidget (Move2D F delta parBBox g))) =
     Vec2D_Add F (AllocPosOrig (LayData (AsWidget g))) (NewVec2DFmPoint F delta) \<and>
   map (\<lambda>k. AllocPos (LayData (AsWidget k))) (Kids (Move2D F delta parBBox g)) =
     map (\<lambda>k. Vec2D_Add F (AllocPosOrig (LayData (AsWidget k))) (NewVec2DFmPoint F delta)) (Kids g) \<and>
   map (\<lambda>w. AllocSize (LayData w)) (subtree (Move2D F delta parBBox g)) =
     map (\<lambda>w. AllocSize (LayData w)) (subtree g) \<and>
   map (\<lambda>w. AllocPosOrig (LayData w)) (subtree (Move2D F delta parBBox g)) =
     map (\<lambda>w. AllocPosOrig (LayData w)) (subtree g)"
proof -
  have root: "AllocPos (LayData (AsWidget (Move2D F delta parBBox g))) =
     Vec2D_Add F (AllocPosOrig (LayData (AsWidget g))) (NewVec2DFmPoint F delta)"
    by (simp add: Move2D_fields_LayData)
  obtain cbb where "Kids (Move2D F delta parBBox g) = map (Move2D F delta cbb) (Kids g)"
    using Move2D_Kids by blast
  then have kids: "map (\<lambda>k. AllocPos (LayData (AsWidget k))) (Kids (Move2D F delta parBBox g)) =
     map (\<lambda>k. Vec2D_Add F (AllocPosOrig (LayData (AsWidget k))) (NewVec2DFmPoint F delta)) (Kids g)"
    by (simp add: comp_def Move2D_fields_LayData)
  have lay: "map LayData (subtree (Move2D F delta parBBox g)) =
     map (\<lambda>w. (LayData w)\<lparr>AllocPos :=
          Vec2D_Add F (AllocPosOrig (LayData w)) (NewVec2DFmPoint F delta)\<rparr>) (subtree g)"
    by (rule Move2D_subtree)
  have "map AllocSize (map LayData (subtree (Move2D F delta parBBox g))) =
      map AllocSize (map LayData (subtree g))"
    unfolding lay by simp
  then have size: "map (\<lambda>w. AllocSize (LayData w)) (subtree (Move2D F delta parBBox g)) =
     map (\<lambda>w. AllocSize (LayData w)) (subtree g)"
    by (simp add: comp_def)
  have "map AllocPosOrig (map LayData (subtree (Move2D F delta parBBox g))) =
      map AllocPosOrig (map LayData (subtree g))"
    unfolding lay by simp
  then have orig: "map (\<lambda>w. AllocPosOrig (LayData w)) (subtree (Move2D F delta parBBox g)) =
     map (\<lambda>w. AllocPosOrig (LayData w)) (subtree g)"
    by (simp add: comp_def)
  from root kids size orig show ?thesis by simp
qed

text \<open>
  A node with one child, moved by \<open>(5, 7)\<close>; float32 addition stands in as addition of
  the bit patterns here. The node had been moved before (its position was not its
  baseline), and the new position is counted from the baseline.
\<close>

lemma Move2D_example:
  "map (\<lambda>w. (AllocPos (LayData w), AllocSize (LayData w)))
     (subtree (Move2D \<lparr>f32_of_int = word_of_int, f32_add = (+), f32_sub = (-), f32_mul = (*),
        f32_div = (div), f32_gt_zero = (\<lambda>x. 0 < sint x), f32_to_int = sint\<rparr>
        \<lparr>Pt_X = 5, Pt_Y = 7\<rparr>
        \<lparr>Rect_Min = \<lparr>Pt_X = 0, Pt_Y = 0\<rparr>, Rect_Max = \<lparr>Pt_X = 100, Pt_Y = 100\<rparr>\<rparr>
        (WidgetBase
          \<lparr>Flag = {}, Viewport = None, BBox2D = ZR, ObjBBox = ZR, VpBBox = ZR, WinBBox = ZR,
            LayData = \<lparr>Size_Pref = \<lparr>V_X = 0, V_Y = 0\<rparr>, AllocSize = \<lparr>V_X = 30, V_Y = 20\<rparr>,
              AllocPos = \<lparr>V_X = 1, V_Y = 1\<rparr>, AllocPosRel = \<lparr>V_X = 0, V_Y = 0\<rparr>,
              AllocPosOrig = \<lparr>V_X = 10, V_Y = 10\<rparr>\<rparr>,
            Sty_BoxSpace = 2, EventBindings = []\<rparr>
          [WidgetBase
            \<lparr>Flag = {}, Viewport = None, BBox2D = ZR, ObjBBox = ZR, VpBBox = ZR, WinBBox = ZR,
              LayData = \<lparr>Size_Pref = \<lparr>V_X = 0, V_Y = 0\<rparr>, AllocSize = \<lparr>V_X = 8, V_Y = 9\<rparr>,
                AllocPos = \<lparr>V_X = 12, V_Y = 12\<rparr>, AllocPosRel = \<lparr>V_X = 2, V_Y = 2\<rparr>,
                AllocPosOrig = \<lparr>V_X = 12, V_Y = 12\<rparr>\<rparr>,
              Sty_BoxSpace = 0, EventBindings = []\<rparr> []])))
   = [(\<lparr>V_X = 15, V_Y = 17\<rparr>, \<lparr>V_X = 30, V_Y = 20\<rparr>),
      (\<lparr>V_X = 17, V_Y = 19\<rparr>, \<lparr>V_X = 8, V_Y = 9\<rparr>)]"
  by (simp add: Move2D.simps Move2DBase_def ComputeBBox2DBase_def Vec2D_Add_def
      NewVec2DFmPoint_def Let_def)

text \<open>
  A child that has not been moved since layout (its position is its baseline) ends with
  its position shifted by the delta.
\<close>

lemma Move2D_from_layout:
  assumes "k \<in> set (Kids g)"
    and "AllocPos (LayData (AsWidget k)) = AllocPosOrig (LayData (AsWidget k))"
  shows "\<exists>k' \<in> set (Kids (Move2D F delta parBBox g)).
           AllocPos (LayData (AsWidget k')) =
             Vec2D_Add F (AllocPos (LayData (AsWidget k))) (NewVec2DFmPoint F delta)"
proof -
  obtain cbb where "Kids (Move2D F delta parBBox g) = map (Move2D F delta cbb) (Kids g)"
    using Move2D_Kids by blast
  then have "Move2D F delta cbb k \<in> set (Kids (Move2D F delta parBBox g))"
    using assms(1) by simp
  moreover have "AllocPos (LayData (AsWidget (Move2D F delta cbb k))) =
      Vec2D_Add F (AllocPos (LayData (AsWidget k))) (NewVec2DFmPoint F delta)"
    using assms(2) by (simp add: Move2D_fields_LayData)
  ultimately show ?thesis by blast
qed

section \<open>The render entry point\<close>

lemma fields_upd_fields: "AsWidget (upd_fields f g) = f (AsWidget g)"
  by (cases g) simp_all

lemma ClearFullReRender_clears: "\<not> NeedsFullReRender (ClearFullReRender g)"
  by (simp add: NeedsFullReRender_def ClearFullReRender_def fields_upd_fields)

lemma ClearFullReRender_keeps:
  "VpBBox (AsWidget (ClearFullReRender g)) = VpBBox (AsWidget g)"
  "Viewport (AsWidget (ClearFullReRender g)) = Viewport (AsWidget g)"
  "LayData (AsWidget (ClearFullReRender g)) = LayData (AsWidget g)"
  "EventBindings (AsWidget (ClearFullReRender g)) = EventBindings (AsWidget g)"
  "IsOverlay (ClearFullReRender g) = IsOverlay g"
  "Kids (ClearFullReRender g) = Kids g"
  by (simp_all add: ClearFullReRender_def fields_upd_fields IsOverlay_def Kids_upd_fields)

lemma and_then_Inr: "and_then m f = Inr y \<Longrightarrow> \<exists>x. m = Inr x \<and> f x = Inr y"
  by (cases m) (simp_all add: and_then_def)

lemma Render2D_dirty_passes:
  assumes "NeedsFullReRender g" and "\<not> Empty (VpBBox (AsWidget g))"
  shows "Render2D P g =
      and_then (Init2DTree P (snd (UpdateStart P (ClearFullReRender g)))) (\<lambda>g1.
      and_then (Style2DTree P g1) (\<lambda>g2.
      and_then (Size2DTree P g2) (\<lambda>g3.
      and_then (Layout2DTree P (upd_fields (\<lambda>w. w\<lparr>LayData := LayData (AsWidget g)\<rparr>) g3)) (\<lambda>g4.
      and_then (Render2DTree P g4) (\<lambda>g5.
      Inr (UpdateEndNoSig P (fst (UpdateStart P (ClearFullReRender g))) g5))))))"
proof -
  have "FullReRenderIfNeeded P g =
      and_then (ReRender2DTree P (ClearFullReRender g)) (\<lambda>g. Inr (True, g))"
    using assms by (simp add: FullReRenderIfNeeded_def)
  then have "Render2D P g = ReRender2DTree P (ClearFullReRender g)"
    by (cases "ReRender2DTree P (ClearFullReRender g)") (simp_all add: Render2D_def and_then_def)
  then show ?thesis
    by (simp add: ReRender2DTree_def Let_def split_beta ClearFullReRender_keeps)
qed

text \<open>
  The flag cleared before the full re-pass is still clear after it, when no pass sets
  it.
\<close>

lemma Render2D_full_rerender_leaves_flag_clear:
  assumes "NeedsFullReRender g" and "\<not> Empty (VpBBox (AsWidget g))"
    and init: "\<And>g g'. \<not> NeedsFullReRender g \<Longrightarrow> Init2DTree P g = Inr g' \<Longrightarrow> \<not> NeedsFullReRender g'"
    and style: "\<And>g g'. \<not> NeedsFullReRender g \<Longrightarrow> Style2DTree P g = Inr g' \<Longrightarrow> \<not> NeedsFullReRender g'"
    and size: "\<And>g g'. \<not> NeedsFullReRender g \<Longrightarrow> Size2DTree P g = Inr g' \<Longrightarrow> \<not> NeedsFullReRender g'"
    and layout: "\<And>g g'. \<not> NeedsFullReRender g \<Longrightarrow> Layout2DTree P g = Inr g' \<Longrightarrow> \<not> NeedsFullReRender g'"
    and render: "\<And>g g'. \<not> NeedsFullReRender g \<Longrightarrow> Render2DTree P g = Inr g' \<Longrightarrow> \<not> NeedsFullReRender g'"
    and start: "\<And>g. \<not> NeedsFullReRender g \<Longrightarrow> \<not> NeedsFullReRender (snd (UpdateStart P g))"
    and fin: "\<And>b g. \<not> NeedsFullReRender g \<Longrightarrow> \<not> NeedsFullReRender (UpdateEndNoSig P b g)"
    and res: "Render2D P g = Inr g'"
  shows "\<not> NeedsFullReRender g'"
proof -
  let ?g0 = "ClearFullReRender g"
  have restore: "\<not> NeedsFullReRender (upd_fields (\<lambda>w. w\<lparr>LayData := ld\<rparr>) x)"
    if "\<not> NeedsFullReRender x" for x ld
    using that by (simp add: NeedsFullReRender_def fields_upd_fields)
  have eq: "and_then (Init2DTree P (snd (UpdateStart P ?g0))) (\<lambda>g1.
      and_then (Style2DTree P g1) (\<lambda>g2.
      and_then (Size2DTree P g2) (\<lambda>g3.
      and_then (Layout2DTree P (upd_fields (\<lambda>w. w\<lparr>LayData := LayData (AsWidget g)\<rparr>) g3)) (\<lambda>g4.
      and_then (Render2DTree P g4) (\<lambda>g5.
      Inr (UpdateEndNoSig P (fst (UpdateStart P ?g0)) g5)))))) = Inr g'"
    using Render2D_dirty_passes[OF assms(1,2), of P] res by simp
  from and_then_Inr[OF eq] obtain g1 where g1: "Init2DTree P (snd (UpdateStart P ?g0)) = Inr g1"
    and e1: "and_then (Style2DTree P g1) (\<lambda>g2.
      and_then (Size2DTree P g2) (\<lambda>g3.
      and_then (Layout2DTree P (upd_fields (\<lambda>w. w\<lparr>LayData := LayData (AsWidget g)\<rparr>) g3)) (\<lambda>g4.
      and_then (Render2DTree P g4) (\<lambda>g5.
      Inr (UpdateEndNoSig P (fst (UpdateStart P ?g0)) g5))))) = Inr g'"
    by blast
  from and_then_Inr[OF e1] obtain g2 where g2: "Style2DTree P g1 = Inr g2"
    and e2: "and_then (Size2DTree P g2) (\<lambda>g3.
      and_then (Layout2DTree P (upd_fields (\<lambda>w. w\<lparr>LayData := LayData (AsWidget g)\<rparr>) g3)) (\<lambda>g4.
      and_then (Render2DTree P g4) (\<lambda>g5.
      Inr (UpdateEndNoSig P (fst (UpdateStart P ?g0)) g5)))) = Inr g'"
    by blast
  from and_then_Inr[OF e2] obtain g3 where g3: "Size2DTree P g2 = Inr g3"
    and e3: "and_then (Layout2DTree P (upd_fields (\<lambda>w. w\<lparr>LayData := LayData (AsWidget g)\<rparr>) g3)) (\<lambda>g4.
      and_then (Render2DTree P g4) (\<lambda>g5.
      Inr (UpdateEndNoSig P (fst (UpdateStart P ?g0)) g5))) = Inr g'"
    by blast
  from and_then_Inr[OF e3] obtain g4
    where g4: "Layout2DTree P (upd_fields (\<lambda>w. w\<lparr>LayData := LayData (AsWidget g)\<rparr>) g3) = Inr g4"
    and e4: "and_then (Render2DTree P g4) (\<lambda>g5.
      Inr (UpdateEndNoSig P (fst (UpdateStart P ?g0)) g5)) = Inr g'"
    by blast
  from and_then_Inr[OF e4] obtain g5 where g5: "Render2DTree P g4 = Inr g5"
    and e5: "UpdateEndNoSig P (fst (UpdateStart P ?g0)) g5 = g'"
    by blast
  have c0: "\<not> NeedsFullReRender (snd (UpdateStart P ?g0))"
    by (rule start) (rule ClearFullReRender_clears)
  have c1: "\<not> NeedsFullReRender g1"
    by (rule init[OF c0 g1])
  have c2: "\<not> NeedsFullReRender g2"
    by (rule style[OF c1 g2])
  have c3: "\<not> NeedsFullReRender g3"
    by (rule size[OF c2 g3])
  have c4: "\<not> NeedsFullReRender g4"
    by (rule layout[OF restore[OF c3] g4])
  have c5: "\<not> NeedsFullReRender g5"
    by (rule render[OF c4 g5])
  have "\<not> NeedsFullReRender (UpdateEndNoSig P (fst (UpdateStart P ?g0)) g5)"
    by (rule fin[OF c5])
  then show ?thesis
    unfolding e5 .
qed

text \<open>
  C4. A node that is not an overlay and whose cached viewport bounding box is empty:
  \<open>Render2D\<close> does not panic and returns the node with its re-render flag cleared and
  its events disconnected, whatever the passes \<open>P\<close> are, so neither the children's
  render nor any other pass ran; the viewport with its bounds stack is as before (no clip
  was pushed, nothing was drawn), the children are untouched, and no event binding is
  left.
\<close>

theorem Render2D_empty_bbox:
  assumes "\<not> IsOverlay g" and "Empty (VpBBox (AsWidget g))"
  shows "Render2D P g = Inr (DisconnectAllEvents RegPri (ClearFullReRender g)) \<and>
    Viewport (AsWidget (DisconnectAllEvents RegPri (ClearFullReRender g))) = Viewport (AsWidget g) \<and>
    Kids (DisconnectAllEvents RegPri (ClearFullReRender g)) = Kids g \<and>
    EventBindings (AsWidget (DisconnectAllEvents RegPri (ClearFullReRender g))) = []"
proof -
  have "FullReRenderIfNeeded P g = Inr (False, g)"
    using assms by (simp add: FullReRenderIfNeeded_def)
  moreover have "PushBounds P g = Inr (False, ClearFullReRender g)"
    using assms by (simp add: PushBounds_def)
  ultimately have "Render2D P g = Inr (DisconnectAllEvents RegPri (ClearFullReRender g))"
    by (simp add: Render2D_def and_then_def)
  then show ?thesis
    by (simp add: DisconnectAllEvents_def fields_upd_fields Kids_upd_fields ClearFullReRender_keeps)
qed

theorem Render2D_empty_bbox_witness:
  "\<not> IsOverlay (dirty_widget ZR) \<and> Empty (VpBBox (AsWidget (dirty_widget ZR))) \<and>
   Render2D marking_passes (dirty_widget ZR) =
     Inr (WidgetBase
      \<lparr>Flag = {}, Viewport = None, BBox2D = ZR, ObjBBox = ZR, VpBBox = ZR, WinBBox = ZR,
        LayData = \<lparr>Size_Pref = \<lparr>V_X = 0, V_Y = 0\<rparr>, AllocSize = \<lparr>V_X = 30, V_Y = 20\<rparr>,
          AllocPos = \<lparr>V_X = 4, V_Y = 4\<rparr>, AllocPosRel = \<lparr>V_X = 4, V_Y = 4\<rparr>,
          AllocPosOrig = \<lparr>V_X = 2, V_Y = 2\<rparr>\<rparr>,
        Sty_BoxSpace = 0, EventBindings = []\<rparr> [])"
proof -
  have a: "\<not> IsOverlay (dirty_widget ZR)"
    by (simp add: IsOverlay_def dirty_widget_def)
  have b: "Empty (VpBBox (AsWidget (dirty_widget ZR)))"
    by (simp add: Empty_def dirty_widget_def ZR_def ZP_def)
  show ?thesis
    using a b Render2D_empty_bbox [OF a b, of marking_passes]
    by (simp add: DisconnectAllEvents_def ClearFullReRender_def dirty_widget_def)
qed

text \<open>
  C1, as the claim states it, has \<open>Render2D\<close> run the full re-pass whenever the flag is
  set. \<open>FullReRenderIfNeeded\<close> also asks for a non-empty viewport bounding box: a dirty
  node with an empty box gets its flag cleared and its events disconnected, and no pass
  runs.
\<close>

theorem Render2D_dirty_empty_counterexample:
  "\<not> (NeedsFullReRender (dirty_widget ZR) \<longrightarrow>
      Render2D marking_passes (dirty_widget ZR) =
        ReRender2DTree marking_passes (ClearFullReRender (dirty_widget ZR)))"
proof -
  have "NeedsFullReRender (dirty_widget ZR)"
    by (simp add: NeedsFullReRender_def dirty_widget_def)
  moreover have "Render2D marking_passes (dirty_widget ZR) =
      Inr (DisconnectAllEvents RegPri (ClearFullReRender (dirty_widget ZR)))"
    by (simp add: Render2D_def FullReRenderIfNeeded_def PushBounds_def and_then_def
        IsOverlay_def Empty_def dirty_widget_def ZR_def ZP_def)
  moreover have "ReRender2DTree marking_passes (ClearFullReRender (dirty_widget ZR)) \<noteq>
      Inr (DisconnectAllEvents RegPri (ClearFullReRender (dirty_widget ZR)))"
    by (simp add: ReRender2DTree_def marking_passes_def and_then_def DisconnectAllEvents_def
        ClearFullReRender_def dirty_widget_def)
  ultimately show ?thesis by simp
qed

text \<open>
  C1, amended. When \<open>Render2D\<close> is called on a node whose re-render flag is set and
  whose cached viewport bounding box is not empty, the node clears the flag and then runs
  the full re-pass and nothing else: init, style and size on the subtree, then the
  node's own \<open>LayData\<close> as it was before the re-pass is put back, then layout and
  render, inside the update bracket; a panic of a pass ends it there.
\<close>

theorem Render2D_full_rerender:
  assumes "NeedsFullReRender g" and "\<not> Empty (VpBBox (AsWidget g))"
  shows "Render2D P g = ReRender2DTree P (ClearFullReRender g) \<and>
    \<not> NeedsFullReRender (ClearFullReRender g) \<and>
    ReRender2DTree P (ClearFullReRender g) =
      and_then (Init2DTree P (snd (UpdateStart P (ClearFullReRender g)))) (\<lambda>g1.
      and_then (Style2DTree P g1) (\<lambda>g2.
      and_then (Size2DTree P g2) (\<lambda>g3.
      and_then (Layout2DTree P (upd_fields (\<lambda>w. w\<lparr>LayData := LayData (AsWidget g)\<rparr>) g3)) (\<lambda>g4.
      and_then (Render2DTree P g4) (\<lambda>g5.
      Inr (UpdateEndNoSig P (fst (UpdateStart P (ClearFullReRender g))) g5))))))"
proof -
  have "FullReRenderIfNeeded P g =
      and_then (ReRender2DTree P (ClearFullReRender g)) (\<lambda>g. Inr (True, g))"
    using assms by (simp add: FullReRenderIfNeeded_def)
  then have "Render2D P g = ReRender2DTree P (ClearFullReRender g)"
    by (cases "ReRender2DTree P (ClearFullReRender g)") (simp_all add: Render2D_def and_then_def)
  moreover have "ReRender2DTree P (ClearFullReRender g) =
      and_then (Init2DTree P (snd (UpdateStart P (ClearFullReRender g)))) (\<lambda>g1.
      and_then (Style2DTree P g1) (\<lambda>g2.
      and_then (Size2DTree P g2) (\<lambda>g3.
      and_then (Layout2DTree P (upd_fields (\<lambda>w. w\<lparr>LayData := LayData (AsWidget g)\<rparr>) g3)) (\<lambda>g4.
      and_then (Render2DTree P g4) (\<lambda>g5.
      Inr (UpdateEndNoSig P (fst (UpdateStart P (ClearFullReRender g))) g5))))))"
    by (simp add: ReRender2DTree_def Let_def split_beta ClearFullReRender_keeps)
  ultimately show ?thesis
    by (simp add: ClearFullReRender_clears)
qed

theorem Render2D_full_rerender_witness:
  "NeedsFullReRender (dirty_widget \<lparr>Rect_Min = ZP, Rect_Max = \<lparr>Pt_X = 30, Pt_Y = 20\<rparr>\<rparr>) \<and>
   \<not> Empty (VpBBox (AsWidget (dirty_widget \<lparr>Rect_Min = ZP, Rect_Max = \<lparr>Pt_X = 30, Pt_Y = 20\<rparr>\<rparr>))) \<and>
   Render2D marking_passes (dirty_widget \<lparr>Rect_Min = ZP, Rect_Max = \<lparr>Pt_X = 30, Pt_Y = 20\<rparr>\<rparr>) =
     Inr (WidgetBase
      \<lparr>Flag = {}, Viewport = None,
        BBox2D = \<lparr>Rect_Min = ZP, Rect_Max = \<lparr>Pt_X = 30, Pt_Y = 20\<rparr>\<rparr>,
        ObjBBox = \<lparr>Rect_Min = ZP, Rect_Max = \<lparr>Pt_X = 30, Pt_Y = 20\<rparr>\<rparr>,
        VpBBox = \<lparr>Rect_Min = ZP, Rect_Max = \<lparr>Pt_X = 30, Pt_Y = 20\<rparr>\<rparr>,
        WinBBox = \<lparr>Rect_Min = ZP, Rect_Max = \<lparr>Pt_X = 30, Pt_Y = 20\<rparr>\<rparr>,
        LayData = \<lparr>Size_Pref = \<lparr>V_X = 0, V_Y = 0\<rparr>, AllocSize = \<lparr>V_X = 30, V_Y = 20\<rparr>,
          AllocPos = \<lparr>V_X = 4, V_Y = 4\<rparr>, AllocPosRel = \<lparr>V_X = 4, V_Y = 4\<rparr>,
          AllocPosOrig = \<lparr>V_X = 4, V_Y = 4\<rparr>\<rparr>,
        Sty_BoxSpace = 0, EventBindings = [(MouseEvent, RegPri)]\<rparr> [])"
proof -
  let ?g = "dirty_widget \<lparr>Rect_Min = ZP, Rect_Max = \<lparr>Pt_X = 30, Pt_Y = 20\<rparr>\<rparr>"
  have a: "NeedsFullReRender ?g"
    by (simp add: NeedsFullReRender_def dirty_widget_def)
  have b: "\<not> Empty (VpBBox (AsWidget ?g))"
    by (simp add: Empty_def dirty_widget_def ZP_def)
  show ?thesis
    using a b Render2D_full_rerender [OF a b, of marking_passes]
    by (simp add: ClearFullReRender_def dirty_widget_def marking_passes_def and_then_def)
qed

section \<open>Inheritance by tag\<close>

text \<open>
  The tag of \<open>Style.Color\<close> separates its pairs by commas. \<open>Get\<close> finds its first
  key, \<open>xml\<close>, and no other: the key of the second pair reads \<open>,inherit\<close>. With
  spaces between the pairs the same tag gives \<open>true\<close> for \<open>inherit\<close>.
\<close>

lemma Style_Color_tag_inherit: "Tag_Get Style_Color_tag ''inherit'' = []"
  by (simp add: Tag_Get_def Tag_Lookup.simps Style_Color_tag_def tag_key_char_def Unquote_def Let_def)

lemma Style_Color_tag_comma_key: "Tag_Lookup Style_Color_tag '',inherit'' = Some ''true''"
  by (simp add: Tag_Lookup.simps Style_Color_tag_def tag_key_char_def Unquote_def Let_def)

lemma spaced_Color_tag_inherit: "Tag_Get spaced_Color_tag ''inherit'' = ''true''"
  by (simp add: Tag_Get_def Tag_Lookup.simps spaced_Color_tag_def tag_key_char_def Unquote_def Let_def)

lemma StyleField_inherits_when_tagged:
  "Tag_Get sftag ''inherit'' = ''true'' \<Longrightarrow> props tag = None \<Longrightarrow>
   StyleField S sftag vf (Some p) df True tag props = ([], Inr p)"
  by (simp add: StyleField_def set_from_def Let_def)

lemma StyleField_keeps_when_not_tagged:
  "Tag_Get sftag ''inherit'' = [] \<Longrightarrow> props tag = None \<Longrightarrow>
   StyleField S sftag vf pf df hasPar tag props = ([], Inr vf)"
  by (simp add: StyleField_def Let_def)

text \<open>
  C5. A child style with text color 1, a parent with text color 2 and an empty property
  map: \<open>StyleField\<close> looks for the key \<open>inherit\<close> in the field's tag, finds nothing, and
  \<open>SetStyle\<close> leaves the child's color at 1. Had the key been found, the field would
  have taken the parent's value (\<open>StyleField_inherits_when_tagged\<close>).
\<close>

theorem SetStyle_Color_not_inherited:
  "Tag_Get Style_Color_tag ''inherit'' = [] \<and>
   get_field ''Color'' (plain_style 2 6) = Some (RColor 2) \<and>
   map_sum (\<lambda>p. p) (get_field ''Color'')
     (snd (SetStyle plain_ops (plain_style 1 5) (Some (plain_style 2 6)) (Some (plain_style 0 7))
        Map.empty)) = Inr (Some (RColor 1))"
  by code_simp

section \<open>The keywords inherit and initial\<close>

text \<open>
  With a parent style, \<open>StyleField\<close> honours both keywords before it looks at the kind
  of the field: \<open>inherit\<close> gives the parent's value and \<open>initial\<close> the default's.
\<close>

lemma StyleField_keywords_with_parent:
  "(props tag = Some (PString ''inherit'') \<longrightarrow>
      snd (StyleField S sftag vf (Some p) df True tag props) = Inr p) \<and>
   (props tag = Some (PString ''initial'') \<longrightarrow>
      snd (StyleField S sftag vf (Some p) (Some d) True tag props) = Inr d)"
  by (simp add: StyleField_def set_from_def Let_def)

lemma StyleField_keywords_with_parent_example:
  "snd (StyleField plain_ops Style_Color_tag (RColor 1) (Some (RColor 2)) (Some (RColor 9)) True
          ''color'' [''color'' \<mapsto> PString ''inherit'']) = Inr (RColor 2) \<and>
   snd (StyleField plain_ops Style_Color_tag (RColor 1) (Some (RColor 2)) (Some (RColor 9)) True
          ''color'' [''color'' \<mapsto> PString ''initial'']) = Inr (RColor 9) \<and>
   snd (StyleField plain_ops Style_Opacity_tag (RFloat64 5) (Some (RFloat64 6))
          (Some (RFloat64 7)) True ''opacity'' [''opacity'' \<mapsto> PString ''initial'']) =
     Inr (RFloat64 7)"
  using StyleField_keywords_with_parent
      [where props = "[''color'' \<mapsto> PString ''inherit'']" and tag = "''color''"
        and S = plain_ops and sftag = Style_Color_tag and vf = "RColor 1" and p = "RColor 2"
        and df = "Some (RColor 9)" and d = "RColor 9"]
    StyleField_keywords_with_parent
      [where props = "[''color'' \<mapsto> PString ''initial'']" and tag = "''color''"
        and S = plain_ops and sftag = Style_Color_tag and vf = "RColor 1" and p = "RColor 2"
        and df = "Some (RColor 9)" and d = "RColor 9"]
    StyleField_keywords_with_parent
      [where props = "[''opacity'' \<mapsto> PString ''initial'']" and tag = "''opacity''"
        and S = plain_ops and sftag = Style_Opacity_tag and vf = "RFloat64 5"
        and p = "RFloat64 6" and df = "Some (RFloat64 7)" and d = "RFloat64 7"]
  by simp

text \<open>
  Without a parent the test \<open>prtv == "initial" && hasPar\<close> fails although the default
  is at hand, and the keyword goes on as an ordinary value: on a color field it is handed
  to the color parser as a color name, and the default is not consulted.
\<close>

lemma Style_Opacity_tag_no_inherit: "Tag_Get Style_Opacity_tag ''inherit'' = []"
  by (simp add: Tag_Get_def Tag_Lookup.simps Style_Opacity_tag_def tag_key_char_def Unquote_def
      Let_def)

lemma StyleField_initial_without_parent_color:
  "StyleField S Style_Color_tag (RColor c) None (Some (RColor d)) False ''color''
      [''color'' \<mapsto> PString ''initial''] =
    (case Color_SetFromString S ''initial'' c of
       Inl p \<Rightarrow> ([], Inl p)
     | Inr (None, c') \<Rightarrow> ([], Inr (RColor c'))
     | Inr (Some err, c') \<Rightarrow> ([StyleFieldError err], Inr (RColor c')))"
  by (simp add: StyleField_def Let_def Style_Color_tag_inherit
      split: sum.split prod.split option.split)

text \<open>
  C6. A root style (no parent) with opacity 5, a default style with opacity 7, and the
  property \<open>opacity\<close> set to the string \<open>initial\<close>: the opacity does not become 7.
  \<open>StyleField\<close> takes the keyword for a value to convert, whatever the parsers \<open>S\<close>
  are, and the conversion panics; so does \<open>SetStyle\<close> on the whole style. With a parent
  the same entry gives 7 (\<open>StyleField_keywords_with_parent_example\<close>).
\<close>

theorem SetStyle_initial_without_parent_panics:
  "snd (StyleField S Style_Opacity_tag (RFloat64 5) None (Some (RFloat64 7)) False
          ''opacity'' [''opacity'' \<mapsto> PString ''initial'']) = Inl ReflectConvert \<and>
   snd (SetStyle plain_ops (plain_style 1 5) None (Some (plain_style 0 7))
          [''opacity'' \<mapsto> PString ''initial'']) = Inl ReflectConvert"
proof
  show "snd (StyleField S Style_Opacity_tag (RFloat64 5) None (Some (RFloat64 7)) False
          ''opacity'' [''opacity'' \<mapsto> PString ''initial'']) = Inl ReflectConvert"
    by (simp add: StyleField_def Let_def Style_Opacity_tag_no_inherit)
  show "snd (SetStyle plain_ops (plain_style 1 5) None (Some (plain_style 0 7))
          [''opacity'' \<mapsto> PString ''initial'']) = Inl ReflectConvert"
    by code_simp
qed

section \<open>Property values that do not convert\<close>

text \<open>
  On a color field \<open>StyleField\<close> checks what the parser returns: an error is logged and
  goes no further.
\<close>

lemma StyleField_color_error_logged:
  assumes "Color_SetFromString S s c = Inr (Some err, c')"
  shows "StyleField S BorderStyle_Color_tag (RColor c) None df False ''border-color''
      [''border-color'' \<mapsto> PString s] = ([StyleFieldError err], Inr (RColor c'))"
proof -
  have "Tag_Get BorderStyle_Color_tag ''inherit'' = []"
    by (simp add: Tag_Get_def Tag_Lookup.simps BorderStyle_Color_tag_def tag_key_char_def
        Unquote_def Let_def)
  then show ?thesis
    using assms by (simp add: StyleField_def Let_def)
qed

lemma BorderStyle_Width_tag_no_inherit: "Tag_Get BorderStyle_Width_tag ''inherit'' = []"
  by (simp add: Tag_Get_def Tag_Lookup.simps BorderStyle_Width_tag_def tag_key_char_def
      Unquote_def Let_def)

text \<open>
  C9. A bool for the border width: \<open>StyleField\<close> converts whatever is neither a string
  nor a \<open>units.Value\<close> to \<open>float64\<close> by reflection, unchecked, and the conversion of a
  bool panics, whatever the parsers \<open>S\<close> are; \<open>SetStyle\<close> on a whole style panics with
  it. A string that is no number for the opacity panics as well, in the last statement
  of \<open>StyleField\<close>. Nothing is logged and the panic is not recovered.
\<close>

theorem SetStyle_malformed_value_panics:
  "StyleField S BorderStyle_Width_tag (RUnits u) None df False ''border-width''
      [''border-width'' \<mapsto> PBool True] = ([], Inl ReflectConvert) \<and>
   SetStyle plain_ops (plain_style 1 5) None (Some (plain_style 0 7))
      [''border-width'' \<mapsto> PBool True] = ([], Inl ReflectConvert) \<and>
   SetStyle plain_ops (plain_style 1 5) None (Some (plain_style 0 7))
      [''opacity'' \<mapsto> PString ''abc''] = ([], Inl ReflectConvert)"
proof (intro conjI)
  show "StyleField S BorderStyle_Width_tag (RUnits u) None df False ''border-width''
      [''border-width'' \<mapsto> PBool True] = ([], Inl ReflectConvert)"
    by (simp add: StyleField_def Let_def BorderStyle_Width_tag_no_inherit)
  show "SetStyle plain_ops (plain_style 1 5) None (Some (plain_style 0 7))
      [''border-width'' \<mapsto> PBool True] = ([], Inl ReflectConvert)"
    by code_simp
  show "SetStyle plain_ops (plain_style 1 5) None (Some (plain_style 0 7))
      [''opacity'' \<mapsto> PString ''abc''] = ([], Inl ReflectConvert)"
    by code_simp
qed

end
